theory Spec2Isabelle
  imports Main
begin

section \<open>JavaScript strings\<close>

text \<open>
  A JavaScript string is modelled by the UTF-8 bytes of its text, one \<open>char\<close> per byte.
  The model is exact for well-formed Unicode text; substring search, replacement and
  concatenation on the bytes agree with the same operations on UTF-16 code units.
  An unpaired surrogate is held as the three bytes \<open>0xED 0xA0..0xBF 0x80..0xBF\<close> of its
  code point, and a surrogate pair always as the four bytes of its code point; a
  concatenation that would put the two halves of a pair side by side is outside the
  embedding.
  Case mapping (\<open>toLowerCase\<close>, \<open>toUpperCase\<close>) is modelled on the ASCII letters; every
  other byte is left as it is.
\<close>

definition code :: "char \<Rightarrow> nat" where
  "code c = of_char c"

definition is_digit :: "char \<Rightarrow> bool" where
  "is_digit c = (48 \<le> code c \<and> code c \<le> 57)"

definition is_upper :: "char \<Rightarrow> bool" where
  "is_upper c = (65 \<le> code c \<and> code c \<le> 90)"

definition is_lower :: "char \<Rightarrow> bool" where
  "is_lower c = (97 \<le> code c \<and> code c \<le> 122)"

definition toLowerCase :: "string \<Rightarrow> string" where
  "toLowerCase s = map (\<lambda>c. if is_upper c then char_of (code c + 32) else c) s"

definition toUpperCase :: "string \<Rightarrow> string" where
  "toUpperCase s = map (\<lambda>c. if is_lower c then char_of (code c - 32) else c) s"

definition startsWith :: "string \<Rightarrow> string \<Rightarrow> bool" where
  "startsWith s p = (take (length p) s = p)"

definition endsWith :: "string \<Rightarrow> string \<Rightarrow> bool" where
  "endsWith s p = (length p \<le> length s \<and> drop (length s - length p) s = p)"

text \<open>\<open>s.includes(p)\<close>: \<open>p\<close> occurs in \<open>s\<close> as a contiguous run.\<close>

fun js_includes :: "string \<Rightarrow> string \<Rightarrow> bool" where
  "js_includes [] p = (p = [])"
| "js_includes (c # cs) p = (startsWith (c # cs) p \<or> js_includes cs p)"

text \<open>
  \<open>s.replace(pat, rep)\<close> with a string pattern: the first occurrence of \<open>pat\<close> is
  replaced, later ones stay. JavaScript reads \<open>$\<close> sequences in \<open>rep\<close> as patterns;
  every replacement the program passes is an \<open>encodeURIComponent\<close> result, which holds
  no \<open>$\<close> (lemma \<open>encodeURIComponent_no_dollar\<close>), so \<open>rep\<close> is inserted as it is.
\<close>

fun replace :: "string \<Rightarrow> string \<Rightarrow> string \<Rightarrow> string" where
  "replace [] pat rep = (if pat = [] then rep else [])"
| "replace (c # cs) pat rep =
     (if startsWith (c # cs) pat then rep @ drop (length pat) (c # cs)
      else c # replace cs pat rep)"

text \<open>\<open>xs.join(sep)\<close> on an array of strings.\<close>

fun join :: "string \<Rightarrow> string list \<Rightarrow> string" where
  "join sep [] = []"
| "join sep [x] = x"
| "join sep (x # y # ys) = x @ sep @ join sep (y # ys)"

subsection \<open>encodeURIComponent\<close>

text \<open>
  Every byte of the UTF-8 text is written as \<open>%XX\<close> (upper-case hexadecimal) unless it is
  one of the unreserved characters \<open>A-Z a-z 0-9 - _ . ! ~ * ' ( )\<close>. On text that holds
  an unpaired surrogate \<open>encodeURIComponent\<close> throws a \<open>URIError\<close> instead:
  \<open>malformed\<close> tells such text, and the handler tests it wherever the code calls
  \<open>encodeURIComponent\<close> (\<open>binding_throws\<close>, \<open>synthesis_throws\<close> below), so the
  function here is only ever read on text that is not malformed.
\<close>

fun malformed :: "string \<Rightarrow> bool" where
  "malformed [] = False"
| "malformed [a] = False"
| "malformed (a # b # cs) = ((a = CHR 0xED \<and> 160 \<le> code b) \<or> malformed (b # cs))"

definition hex_upper :: "nat \<Rightarrow> char" where
  "hex_upper n = ''0123456789ABCDEF'' ! (n mod 16)"

definition uri_unreserved :: "char \<Rightarrow> bool" where
  "uri_unreserved c =
     (is_digit c \<or> is_upper c \<or> is_lower c \<or> c \<in> set ''-_.!~*'' \<or> code c = 39 \<or> c \<in> set ''()'')"

definition encode_byte :: "char \<Rightarrow> string" where
  "encode_byte c =
     (if uri_unreserved c then [c]
      else [CHR ''%'', hex_upper (code c div 16), hex_upper (code c mod 16)])"

definition encodeURIComponent :: "string \<Rightarrow> string" where
  "encodeURIComponent s = concat (map encode_byte s)"

section \<open>JavaScript values\<close>

text \<open>
  The values an invocation can carry are those of JSON. \<open>JNum m e\<close> is the number
  \<open>m * 10 ^ e\<close>; the model is exact where that decimal has at most 15 significant digits
  and lies in the range of a double, beyond that JavaScript rounds to the nearest double,
  which the embedding does not follow. An object is the list of its own properties in the
  order JavaScript enumerates them. The accessor property \<open>__proto__\<close> is outside the
  embedding: property names are taken as plain data keys.
\<close>

datatype jsval =
    JNull
  | JBool bool
  | JNum int int
  | JStr string
  | JArr "jsval list"
  | JObj "(string \<times> jsval) list"

text \<open>Truthiness, as \<open>if (v)\<close> and \<open>a && b\<close> test it.\<close>

fun truthy :: "jsval \<Rightarrow> bool" where
  "truthy JNull = False"
| "truthy (JBool b) = b"
| "truthy (JNum m e) = (m \<noteq> 0)"
| "truthy (JStr s) = (s \<noteq> [])"
| "truthy (JArr xs) = True"
| "truthy (JObj ms) = True"

subsection \<open>Number to string\<close>

text \<open>The decimal digits of a number that is not negative, and a mantissa without its
  trailing zeros.\<close>

function dec :: "int \<Rightarrow> string" where
  "dec n = (if n < 10 then [char_of (48 + n)] else dec (n div 10) @ [char_of (48 + n mod 10)])"
  by pat_completeness auto
termination
  by (relation "measure nat") auto

function strip_zeros :: "int \<Rightarrow> int \<Rightarrow> int \<times> int" where
  "strip_zeros m e =
     (if 0 < m \<and> m mod 10 = 0 then strip_zeros (m div 10) (e + 1) else (m, e))"
  by pat_completeness auto
termination
  by (relation "measure (\<lambda>p. nat (fst p))") auto

text \<open>
  \<open>Number::toString\<close> of ECMAScript on the decimal \<open>m * 10 ^ e\<close>: with \<open>k\<close> significant
  digits and the decimal point after the \<open>n\<close>-th of them, plain digits when
  \<open>k \<le> n \<le> 21\<close>, a decimal point inside when \<open>0 < n \<le> 21\<close>, leading \<open>0.00\<close> when
  \<open>-6 < n \<le> 0\<close>, and exponent notation otherwise.
\<close>

definition num_to_string :: "int \<Rightarrow> int \<Rightarrow> string" where
  "num_to_string m e =
     (if m = 0 then ''0''
      else
        let (s, e') = strip_zeros \<bar>m\<bar> e;
            ds = dec s;
            k = int (length ds);
            n = k + e';
            sign = (if m < 0 then ''-'' else '''')
        in sign @
           (if k \<le> n \<and> n \<le> 21 then ds @ replicate (nat (n - k)) (CHR ''0'')
            else if 0 < n \<and> n \<le> 21 then take (nat n) ds @ ''.'' @ drop (nat n) ds
            else if -6 < n \<and> n \<le> 0 then ''0.'' @ replicate (nat (- n)) (CHR ''0'') @ ds
            else
              let ex = (if n - 1 < 0 then ''-'' else ''+'') @ dec \<bar>n - 1\<bar>
              in if k = 1 then ds @ ''e'' @ ex
                 else [hd ds] @ ''.'' @ tl ds @ ''e'' @ ex))"

subsection \<open>ToString\<close>

text \<open>
  \<open>`${v}`\<close>, and the coercion \<open>encodeURIComponent(v)\<close> makes of a value that is not a
  string. An array is its elements joined by commas, with \<open>null\<close> elements empty; an
  object is \<open>[object Object]\<close>.
\<close>

fun to_string :: "jsval \<Rightarrow> string" where
  "to_string JNull = ''null''"
| "to_string (JBool b) = (if b then ''true'' else ''false'')"
| "to_string (JNum m e) = num_to_string m e"
| "to_string (JStr s) = s"
| "to_string (JArr xs) = join '','' (map (\<lambda>x. if x = JNull then [] else to_string x) xs)"
| "to_string (JObj ms) = ''[object Object]''"

subsection \<open>JSON.stringify\<close>

text \<open>
  \<open>QuoteJSONString\<close>: the quote, the backslash and the control characters below 0x20 are
  escaped (\<open>\b \t \n \f \r\<close> by their short form, the others as \<open>\u00xx\<close> with
  lower-case hexadecimal digits); every other byte is copied. JavaScript writes an
  unpaired surrogate as the escape \<open>\udXXX\<close>, where the embedding copies its three
  bytes; \<open>JSON.parse\<close> reads both back to the same string.
\<close>

definition hex_lower :: "nat \<Rightarrow> char" where
  "hex_lower n = ''0123456789abcdef'' ! (n mod 16)"

definition quote_char :: "char \<Rightarrow> string" where
  "quote_char c =
     (if c = CHR 0x22 then [CHR 0x5C, CHR 0x22]
      else if c = CHR 0x5C then [CHR 0x5C, CHR 0x5C]
      else if c = CHR 0x08 then [CHR 0x5C, CHR ''b'']
      else if c = CHR 0x09 then [CHR 0x5C, CHR ''t'']
      else if c = CHR 0x0A then [CHR 0x5C, CHR ''n'']
      else if c = CHR 0x0C then [CHR 0x5C, CHR ''f'']
      else if c = CHR 0x0D then [CHR 0x5C, CHR ''r'']
      else if code c < 32 then
        [CHR 0x5C, CHR ''u'', CHR ''0'', CHR ''0'', hex_lower (code c div 16), hex_lower (code c mod 16)]
      else [c])"

definition quote :: "string \<Rightarrow> string" where
  "quote s = [CHR 0x22] @ concat (map quote_char s) @ [CHR 0x22]"

fun JSON_stringify :: "jsval \<Rightarrow> string" where
  "JSON_stringify JNull = ''null''"
| "JSON_stringify (JBool b) = (if b then ''true'' else ''false'')"
| "JSON_stringify (JNum m e) = num_to_string m e"
| "JSON_stringify (JStr s) = quote s"
| "JSON_stringify (JArr xs) = ''['' @ join '','' (map JSON_stringify xs) @ '']''"
| "JSON_stringify (JObj ms) =
     ''{'' @ join '','' (map (\<lambda>kv. quote (fst kv) @ '':'' @ JSON_stringify (snd kv)) ms) @ ''}''"

section \<open>JSON.parse\<close>

text \<open>
  The JSON grammar of ECMA-404, as \<open>JSON.parse\<close> reads it: the text is cut into tokens
  and the tokens are read by a machine with an explicit stack of the arrays and objects
  still open. \<open>None\<close> is the \<open>SyntaxError\<close> that \<open>JSON.parse\<close> throws.
\<close>

subsection \<open>Objects under construction\<close>

text \<open>
  JavaScript enumerates the own properties of an object with the array indices first, in
  ascending order, then the other names in the order they were added. Writing a name that
  is there already keeps its place and replaces its value.
\<close>

definition digits_value :: "string \<Rightarrow> int" where
  "digits_value ds = foldl (\<lambda>n c. 10 * n + (int (code c) - 48)) 0 ds"

definition is_array_index :: "string \<Rightarrow> bool" where
  "is_array_index k =
     (k \<noteq> [] \<and> list_all is_digit k \<and> (k = ''0'' \<or> hd k \<noteq> CHR ''0'')
      \<and> digits_value k < 4294967295)"

fun insert_index :: "string \<Rightarrow> 'a \<Rightarrow> (string \<times> 'a) list \<Rightarrow> (string \<times> 'a) list" where
  "insert_index k v [] = [(k, v)]"
| "insert_index k v (p # ps) =
     (if is_array_index (fst p) \<and> digits_value (fst p) < digits_value k
      then p # insert_index k v ps
      else (k, v) # p # ps)"

definition put :: "string \<Rightarrow> 'a \<Rightarrow> (string \<times> 'a) list \<Rightarrow> (string \<times> 'a) list" where
  "put k v ps =
     (if k \<in> fst ` set ps then map (\<lambda>p. if fst p = k then (k, v) else p) ps
      else if is_array_index k then insert_index k v ps
      else ps @ [(k, v)])"

subsection \<open>Tokens\<close>

datatype token =
    TLBrace | TRBrace | TLBracket | TRBracket | TColon | TComma
  | TString string | TNumber int int | TTrue | TFalse | TNull

definition is_ws :: "char \<Rightarrow> bool" where
  "is_ws c = (c = CHR 0x20 \<or> c = CHR 0x09 \<or> c = CHR 0x0A \<or> c = CHR 0x0D)"

definition hex_value :: "char \<Rightarrow> int option" where
  "hex_value c =
     (if is_digit c then Some (int (code c) - 48)
      else if 97 \<le> code c \<and> code c \<le> 102 then Some (int (code c) - 87)
      else if 65 \<le> code c \<and> code c \<le> 70 then Some (int (code c) - 55)
      else None)"

text \<open>The four hexadecimal digits of a \<open>\uXXXX\<close> escape.\<close>

definition hex4 :: "string \<Rightarrow> int option" where
  "hex4 s =
     (case map hex_value s of
        [Some a, Some b, Some c, Some d] \<Rightarrow> Some (((a * 16 + b) * 16 + c) * 16 + d)
      | _ \<Rightarrow> None)"

definition utf8_encode :: "int \<Rightarrow> string" where
  "utf8_encode n =
     (if n < 128 then [char_of n]
      else if n < 2048 then [char_of (192 + n div 64), char_of (128 + n mod 64)]
      else if n < 65536 then
        [char_of (224 + n div 4096), char_of (128 + n div 64 mod 64), char_of (128 + n mod 64)]
      else
        [char_of (240 + n div 262144), char_of (128 + n div 4096 mod 64),
         char_of (128 + n div 64 mod 64), char_of (128 + n mod 64)])"

definition unescape :: "char \<Rightarrow> char option" where
  "unescape e =
     (if e = CHR 0x22 then Some (CHR 0x22)
      else if e = CHR 0x5C then Some (CHR 0x5C)
      else if e = CHR ''/'' then Some (CHR ''/'')
      else if e = CHR ''b'' then Some (CHR 0x08)
      else if e = CHR ''f'' then Some (CHR 0x0C)
      else if e = CHR ''n'' then Some (CHR 0x0A)
      else if e = CHR ''r'' then Some (CHR 0x0D)
      else if e = CHR ''t'' then Some (CHR 0x09)
      else None)"

text \<open>
  The low half of a surrogate pair, when the text goes on with one: a high surrogate
  \<open>\uD800..\uDBFF\<close> followed by the escape of a low one \<open>\uDC00..\uDFFF\<close> is one code
  point above 0xFFFF.
\<close>

definition low_surrogate :: "string \<Rightarrow> int option" where
  "low_surrogate r =
     (if take 2 r = [CHR 0x5C, CHR ''u''] then
        (case hex4 (take 4 (drop 2 r)) of
           None \<Rightarrow> None
         | Some lo \<Rightarrow> if 56320 \<le> lo \<and> lo \<le> 57343 then Some lo else None)
      else None)"

text \<open>
  The characters of a string literal after its opening quote, up to the closing one:
  the result is the string and the text behind the closing quote. A control character
  below 0x20 may not stand in a string unescaped.
\<close>

fun lex_string :: "string \<Rightarrow> string \<Rightarrow> (string \<times> string) option" where
  "lex_string acc [] = None"
| "lex_string acc (c # cs) =
     (if c = CHR 0x22 then Some (acc, cs)
      else if c = CHR 0x5C then
        (case cs of
           [] \<Rightarrow> None
         | e # r \<Rightarrow>
             if e = CHR ''u'' then
               (case hex4 (take 4 r) of
                  None \<Rightarrow> None
                | Some n \<Rightarrow>
                    (case (if 55296 \<le> n \<and> n \<le> 56319 then low_surrogate (drop 4 r) else None) of
                       Some lo \<Rightarrow>
                         lex_string (acc @ utf8_encode (65536 + (n - 55296) * 1024 + (lo - 56320)))
                           (drop 10 r)
                     | None \<Rightarrow> lex_string (acc @ utf8_encode n) (drop 4 r)))
             else
               (case unescape e of
                  None \<Rightarrow> None
                | Some ch \<Rightarrow> lex_string (acc @ [ch]) r))
      else if code c < 32 then None
      else lex_string (acc @ [c]) cs)"

text \<open>
  A number: an optional minus, an integer part without a leading zero, an optional
  fraction and an optional exponent. The result is the mantissa, the decimal exponent and
  the text behind the number. An integer part \<open>0\<close> followed by a digit is refused here:
  JSON ends the number after the zero, and no value may follow a number directly.
\<close>

definition lex_int :: "string \<Rightarrow> (string \<times> string) option" where
  "lex_int s =
     (let ip = takeWhile is_digit s
      in if ip = [] \<or> (hd ip = CHR ''0'' \<and> length ip > 1) then None
         else Some (ip, dropWhile is_digit s))"

definition lex_frac :: "string \<Rightarrow> (string \<times> string) option" where
  "lex_frac s =
     (if s \<noteq> [] \<and> hd s = CHR ''.'' then
        (let fp = takeWhile is_digit (tl s)
         in if fp = [] then None else Some (fp, dropWhile is_digit (tl s)))
      else Some ([], s))"

definition lex_exp :: "string \<Rightarrow> (int \<times> string) option" where
  "lex_exp s =
     (if s \<noteq> [] \<and> (hd s = CHR ''e'' \<or> hd s = CHR ''E'') then
        (let s1 = tl s;
             neg = (s1 \<noteq> [] \<and> hd s1 = CHR ''-'');
             s2 = (if s1 \<noteq> [] \<and> (hd s1 = CHR ''-'' \<or> hd s1 = CHR ''+'') then tl s1 else s1);
             ep = takeWhile is_digit s2
         in if ep = [] then None
            else Some (if neg then - digits_value ep else digits_value ep,
                       dropWhile is_digit s2))
      else Some (0, s))"

definition lex_number :: "string \<Rightarrow> (int \<times> int \<times> string) option" where
  "lex_number s =
     (let neg = (s \<noteq> [] \<and> hd s = CHR ''-'')
      in case lex_int (if neg then tl s else s) of
           None \<Rightarrow> None
         | Some (ip, s2) \<Rightarrow>
             (case lex_frac s2 of
                None \<Rightarrow> None
              | Some (fp, s3) \<Rightarrow>
                  (case lex_exp s3 of
                     None \<Rightarrow> None
                   | Some (ex, s4) \<Rightarrow>
                       Some ((if neg then - 1 else 1) * digits_value (ip @ fp),
                             ex - int (length fp), s4))))"

text \<open>The tokens of a text; white space between them is skipped.\<close>

function lex :: "string \<Rightarrow> token list option" where
  "lex [] = Some []"
| "lex (c # cs) =
     (if is_ws c then lex cs
      else if c = CHR ''{'' then map_option ((#) TLBrace) (lex cs)
      else if c = CHR ''}'' then map_option ((#) TRBrace) (lex cs)
      else if c = CHR ''['' then map_option ((#) TLBracket) (lex cs)
      else if c = CHR '']'' then map_option ((#) TRBracket) (lex cs)
      else if c = CHR '':'' then map_option ((#) TColon) (lex cs)
      else if c = CHR '','' then map_option ((#) TComma) (lex cs)
      else if c = CHR 0x22 then
        (case lex_string [] cs of
           None \<Rightarrow> None
         | Some (s, r) \<Rightarrow> map_option ((#) (TString s)) (lex r))
      else if c = CHR ''-'' \<or> is_digit c then
        (case lex_number (c # cs) of
           None \<Rightarrow> None
         | Some (m, e, r) \<Rightarrow> map_option ((#) (TNumber m e)) (lex r))
      else if startsWith (c # cs) ''true'' then map_option ((#) TTrue) (lex (drop 3 cs))
      else if startsWith (c # cs) ''false'' then map_option ((#) TFalse) (lex (drop 4 cs))
      else if startsWith (c # cs) ''null'' then map_option ((#) TNull) (lex (drop 3 cs))
      else None)"
  by pat_completeness auto
termination
proof -
  have string_shorter: "lex_string acc s = Some (t, r) \<Longrightarrow> length r < Suc (length s)"
    for acc s t r
  proof (induction acc s rule: lex_string.induct)
    case (1 acc)
    then show ?case by simp
  next
    case (2 acc c cs)
    show ?case
    proof (cases "c = CHR 0x22")
      case True
      with "2.prems" show ?thesis by simp
    next
      case nq: False
      show ?thesis
      proof (cases "c = CHR 0x5C")
        case False
        with nq "2.prems" "2.IH"(4) show ?thesis
          by (auto split: if_splits)
      next
        case bs: True
        show ?thesis
        proof (cases cs)
          case Nil
          with nq bs "2.prems" show ?thesis by simp
        next
          case (Cons e r')
          show ?thesis
          proof (cases "e = CHR ''u''")
            case False
            with nq bs Cons "2.prems" "2.IH"(3) [of e r'] show ?thesis
              by (auto split: option.splits)
          next
            case u: True
            from nq bs Cons u "2.prems" obtain n where n: "hex4 (take 4 r') = Some n"
              by (auto split: option.splits)
            show ?thesis
            proof (cases "if 55296 \<le> n \<and> n \<le> 56319 then low_surrogate (drop 4 r') else None")
              case None
              from nq bs Cons u n None "2.prems"
              have "lex_string (acc @ utf8_encode n) (drop 4 r') = Some (t, r)" by simp
              from "2.IH"(1) [OF nq bs Cons u n None this] show ?thesis
                using Cons by simp
            next
              case (Some lo)
              from nq bs Cons u n Some "2.prems"
              have "lex_string (acc @ utf8_encode (65536 + (n - 55296) * 1024 + (lo - 56320)))
                      (drop 10 r') = Some (t, r)" by simp
              from "2.IH"(2) [OF nq bs Cons u n Some this] show ?thesis
                using Cons by simp
            qed
          qed
        qed
      qed
    qed
  qed
  have dw: "length (dropWhile is_digit x) \<le> length x" for x
    by (rule length_dropWhile_le)
  have int_shorter: "length r < length s" if "lex_int s = Some (ip, r)" for s ip r
  proof -
    from that have r: "r = dropWhile is_digit s" and ip: "takeWhile is_digit s \<noteq> []"
      by (auto simp: lex_int_def Let_def split: if_splits)
    have "length (takeWhile is_digit s) + length (dropWhile is_digit s) = length s"
      by (metis length_append takeWhile_dropWhile_id)
    with ip r show ?thesis by (cases "takeWhile is_digit s") auto
  qed
  have frac_shorter: "length r \<le> length s" if "lex_frac s = Some (fp, r)" for s fp r
    using that dw [of "tl s"] by (auto simp: lex_frac_def Let_def split: if_splits)
  have exp_shorter: "length r \<le> length s" if "lex_exp s = Some (ex, r)" for s ex r
    using that dw [of "tl s"] dw [of "tl (tl s)"]
    by (auto simp: lex_exp_def Let_def split: if_splits)
  have number_shorter: "length r < length s" if "lex_number s = Some (m, e, r)" for s m e r
  proof -
    from that obtain ip s2 fp s3 ex where
      1: "lex_int (if s \<noteq> [] \<and> hd s = CHR ''-'' then tl s else s) = Some (ip, s2)" and
      2: "lex_frac s2 = Some (fp, s3)" and
      3: "lex_exp s3 = Some (ex, r)"
      by (auto simp: lex_number_def Let_def split: option.splits)
    have "length (if s \<noteq> [] \<and> hd s = CHR ''-'' then tl s else s) \<le> length s"
      by simp
    with int_shorter [OF 1] frac_shorter [OF 2] exp_shorter [OF 3] show ?thesis
      by linarith
  qed
  show ?thesis
    apply (relation "measure length")
                apply simp_all
    subgoal for c cs x2 x y
      using string_shorter [of "[]" cs x y] by simp
    subgoal for c cs x2 x y xa ya
      using number_shorter [of "c # cs" x xa ya] by simp
    done
qed

subsection \<open>Reading the tokens\<close>

text \<open>
  A frame is an array or an object that is still open: the elements read so far, or the
  members read so far together with the name whose value is being read.
\<close>

datatype frame =
    FArr "jsval list"
  | FObj "(string \<times> jsval) list" string

datatype pstate =
    PValue "frame list"
  | PArrFirst "frame list"
  | PArrNext "jsval list" "frame list"
  | PObjFirst "frame list"
  | PObjKey "(string \<times> jsval) list" "frame list"
  | PObjColon "(string \<times> jsval) list" string "frame list"
  | PObjNext "(string \<times> jsval) list" "frame list"
  | PEnd jsval

text \<open>A value is complete: it is the whole text, the next element, or the next member.\<close>

fun complete :: "jsval \<Rightarrow> frame list \<Rightarrow> pstate" where
  "complete v [] = PEnd v"
| "complete v (FArr xs # st) = PArrNext (xs @ [v]) st"
| "complete v (FObj ms k # st) = PObjNext (put k v ms) st"

fun start_value :: "token \<Rightarrow> frame list \<Rightarrow> pstate option" where
  "start_value TLBrace st = Some (PObjFirst st)"
| "start_value TLBracket st = Some (PArrFirst st)"
| "start_value (TString s) st = Some (complete (JStr s) st)"
| "start_value (TNumber m e) st = Some (complete (JNum m e) st)"
| "start_value TTrue st = Some (complete (JBool True) st)"
| "start_value TFalse st = Some (complete (JBool False) st)"
| "start_value TNull st = Some (complete JNull st)"
| "start_value _ st = None"

fun pstep :: "pstate \<Rightarrow> token \<Rightarrow> pstate option" where
  "pstep (PValue st) t = start_value t st"
| "pstep (PArrFirst st) t =
     (if t = TRBracket then Some (complete (JArr []) st) else start_value t (FArr [] # st))"
| "pstep (PArrNext xs st) t =
     (if t = TComma then Some (PValue (FArr xs # st))
      else if t = TRBracket then Some (complete (JArr xs) st)
      else None)"
| "pstep (PObjFirst st) t =
     (case t of
        TRBrace \<Rightarrow> Some (complete (JObj []) st)
      | TString k \<Rightarrow> Some (PObjColon [] k st)
      | _ \<Rightarrow> None)"
| "pstep (PObjKey ms st) t =
     (case t of
        TString k \<Rightarrow> Some (PObjColon ms k st)
      | _ \<Rightarrow> None)"
| "pstep (PObjColon ms k st) t =
     (if t = TColon then Some (PValue (FObj ms k # st)) else None)"
| "pstep (PObjNext ms st) t =
     (if t = TComma then Some (PObjKey ms st)
      else if t = TRBrace then Some (complete (JObj ms) st)
      else None)"
| "pstep (PEnd v) t = None"

fun parse_tokens :: "pstate \<Rightarrow> token list \<Rightarrow> jsval option" where
  "parse_tokens (PEnd v) [] = Some v"
| "parse_tokens p [] = None"
| "parse_tokens p (t # ts) =
     (case pstep p t of None \<Rightarrow> None | Some p' \<Rightarrow> parse_tokens p' ts)"

definition JSON_parse :: "string \<Rightarrow> jsval option" where
  "JSON_parse s = (case lex s of None \<Rightarrow> None | Some ts \<Rightarrow> parse_tokens (PValue []) ts)"

section \<open>The endpoint catalog\<close>

text \<open>
  One entry of \<open>api.endpoints\<close> (the generated client, not part of the sources at hand):
  the fields \<open>registerGraphTools\<close> reads (\<open>toolAlias\<close> is its \<open>alias\<close>, \<open>httpMethod\<close> its
  \<open>method\<close>, \<open>ptype\<close> the \<open>type\<close> of a parameter). \<open>errors\<close> holds the \<open>description\<close> of
  each declared error response; \<open>has_schema\<close> tells whether the parameter carries a schema.
\<close>

datatype param_type = Path | Query | Body | Header

record parameter =
  name :: string
  ptype :: param_type
  has_schema :: bool

record endpoint =
  toolAlias :: string
  httpMethod :: string
  path :: string
  description :: "string option"
  parameters :: "parameter list"
  errors :: "string list"

section \<open>The handler of a catalog operation\<close>

subsection \<open>Binding the arguments (lines 96 to 161)\<close>

text \<open>
  The arguments are the entries of \<open>params\<close> in the order \<open>Object.entries\<close> gives them.
  The loop keeps four variables: the path, the query parameters, the headers and the body.
  \<open>bind_all\<close> and \<open>synthesize\<close> give the variables after the loop and the request built
  from them where no \<open>encodeURIComponent\<close> throws; where one does is told by \<open>request\<close>
  below.
\<close>

type_synonym arguments = "(string \<times> jsval) list"

record bindings =
  bpath :: string
  queryParams :: "(string \<times> string) list"
  headers :: "(string \<times> string) list"
  body :: jsval

definition odataParams :: "string list" where
  "odataParams =
     [''filter'', ''select'', ''expand'', ''orderby'', ''skip'', ''top'', ''count'', ''search'',
      ''format'']"

definition fixedParamName :: "string \<Rightarrow> string" where
  "fixedParamName paramName =
     (if toLowerCase paramName \<in> set odataParams then ''$'' @ toLowerCase paramName
      else paramName)"

text \<open>
  The value a body argument leaves in \<open>body\<close>: a string is given to \<open>JSON.parse\<close> and
  kept as it is when that throws; any other value is taken as it is.
\<close>

definition body_value :: "jsval \<Rightarrow> jsval" where
  "body_value paramValue =
     (case paramValue of
        JStr s \<Rightarrow> (case JSON_parse s of Some v \<Rightarrow> v | None \<Rightarrow> JStr s)
      | _ \<Rightarrow> paramValue)"

definition bind_param :: "parameter list \<Rightarrow> bindings \<Rightarrow> string \<times> jsval \<Rightarrow> bindings" where
  "bind_param parameterDefinitions b arg =
     (let paramName = fst arg; paramValue = snd arg
      in case find (\<lambda>p. name p = paramName) parameterDefinitions of
           Some paramDef \<Rightarrow>
             (case ptype paramDef of
                Path \<Rightarrow>
                  b\<lparr>bpath :=
                      replace
                        (replace (bpath b) (''{'' @ paramName @ ''}'')
                           (encodeURIComponent (to_string paramValue)))
                        ('':'' @ paramName) (encodeURIComponent (to_string paramValue))\<rparr>
              | Query \<Rightarrow>
                  b\<lparr>queryParams :=
                      put (fixedParamName paramName) (to_string paramValue) (queryParams b)\<rparr>
              | Body \<Rightarrow> b\<lparr>body := body_value paramValue\<rparr>
              | Header \<Rightarrow>
                  b\<lparr>headers :=
                      put (fixedParamName paramName) (to_string paramValue) (headers b)\<rparr>)
         | None \<Rightarrow>
             if paramName = ''body'' then b\<lparr>body := body_value paramValue\<rparr> else b)"

definition bind_all :: "endpoint \<Rightarrow> arguments \<Rightarrow> bindings" where
  "bind_all tool params =
     foldl (bind_param (parameters tool))
       \<lparr>bpath = path tool, queryParams = [], headers = [], body = JNull\<rparr> params"

subsection \<open>Building the request (lines 163 to 198)\<close>

record options =
  o_method :: string
  o_headers :: "(string \<times> string) list"
  o_body :: "string option"
  o_excelFile :: "string option"
  o_rawResponse :: bool

definition with_query :: "string \<Rightarrow> (string \<times> string) list \<Rightarrow> string" where
  "with_query pth qs =
     (if qs \<noteq> [] then
        pth @ (if js_includes pth ''?'' then ''&'' else ''?'')
          @ join ''&'' (map (\<lambda>kv. encodeURIComponent (fst kv) @ ''='' @ encodeURIComponent (snd kv)) qs)
      else pth)"

text \<open>
  \<open>path.match(/\/me\/drive\/root:([^:]+):/)\<close>: the leftmost place where the marker is
  followed by at least one character other than a colon and then by a colon; the result
  is the text between the marker and that colon.
\<close>

fun match_excel :: "string \<Rightarrow> string option" where
  "match_excel [] = None"
| "match_excel (c # cs) =
     (if startsWith (c # cs) ''/me/drive/root:'' then
        (let rest = drop 15 (c # cs);
             seg = takeWhile (\<lambda>x. x \<noteq> CHR '':'') rest
         in if seg \<noteq> [] \<and> dropWhile (\<lambda>x. x \<noteq> CHR '':'') rest \<noteq> [] then Some seg
            else match_excel cs)
      else match_excel cs)"

definition synthesize :: "endpoint \<Rightarrow> arguments \<Rightarrow> string \<times> options" where
  "synthesize tool params =
     (let b = bind_all tool params;
          pth = with_query (bpath b) (queryParams b);
          m = toUpperCase (httpMethod tool)
      in (pth,
          \<lparr>o_method = m,
           o_headers = headers b,
           o_body =
             (if m \<noteq> ''GET'' \<and> truthy (body b) then
                Some (case body b of JStr s \<Rightarrow> s | v \<Rightarrow> JSON_stringify v)
              else None),
           o_excelFile =
             (if js_includes (toolAlias tool) ''excel'' \<and> js_includes pth ''workbook''
              then match_excel pth else None),
           o_rawResponse =
             (''Retrieved media content'' \<in> set (errors tool) \<or> endsWith pth ''/content'')\<rparr>))"

subsection \<open>What the handler can throw\<close>

text \<open>
  JavaScript throws any value. Of the value it catches the handler reads \<open>message\<close>
  (lines 249 and 253, \<open>(error as Error).message\<close>; the cast is erased when the program is
  compiled): of \<open>null\<close> or \<open>undefined\<close> that reading throws a \<open>TypeError\<close>, of any other
  value it is the value of the property, \<open>undefined\<close> where the value has none.
  \<open>Thrown m\<close> is a thrown value other than \<open>null\<close> and \<open>undefined\<close> whose \<open>message\<close> reads
  \<open>m\<close> (\<open>None\<close> for \<open>undefined\<close>); a message is a value of JSON or \<open>undefined\<close>.
  \<open>Error m\<close> is \<open>new Error(m)\<close>, and so are, as far as \<open>message\<close> goes, the \<open>URIError\<close>
  and the \<open>TypeError\<close> the language throws; their messages are those of Node.js.
\<close>

datatype nullish = Null | Undefined

datatype thrown = Nullish nullish | Thrown "jsval option"

definition Error :: "string \<Rightarrow> thrown" where
  "Error msg = Thrown (Some (JStr msg))"

definition uri_malformed :: thrown where
  "uri_malformed = Error ''URI malformed''"

definition cannot_read :: "nullish \<Rightarrow> string \<Rightarrow> thrown" where
  "cannot_read x prop =
     Error (''Cannot read properties of ''
            @ (case x of Null \<Rightarrow> ''null'' | Undefined \<Rightarrow> ''undefined'')
            @ '' (reading '' @ [CHR 0x27] @ prop @ [CHR 0x27] @ '')'')"

text \<open>
  Binding calls \<open>encodeURIComponent\<close> on the string of each argument located in the path
  (lines 125 and 126); \<open>JSON.parse\<close> on a body has its own \<open>catch\<close>. Building the query
  string calls it on every key and value stored (line 165). Nothing else throws before
  the request is sent: \<open>request\<close> is the request built, or the \<open>URIError\<close>.
\<close>

definition binding_throws :: "endpoint \<Rightarrow> arguments \<Rightarrow> bool" where
  "binding_throws tool params =
     (\<exists>arg \<in> set params.
        (case find (\<lambda>p. name p = fst arg) (parameters tool) of
           Some paramDef \<Rightarrow> ptype paramDef = Path \<and> malformed (to_string (snd arg))
         | None \<Rightarrow> False))"

definition synthesis_throws :: "endpoint \<Rightarrow> arguments \<Rightarrow> bool" where
  "synthesis_throws tool params =
     (\<exists>kv \<in> set (queryParams (bind_all tool params)). malformed (fst kv) \<or> malformed (snd kv))"

definition request :: "endpoint \<Rightarrow> arguments \<Rightarrow> thrown + (string \<times> options)" where
  "request tool params =
     (if binding_throws tool params \<or> synthesis_throws tool params then Inl uri_malformed
      else Inr (synthesize tool params))"

subsection \<open>Dispatch and result (lines 200 to 261)\<close>

text \<open>
  \<open>graphClient.graphRequest\<close> is the transport, given from outside: it throws, or it
  answers. The handler tests its answer against \<open>null\<close> and \<open>undefined\<close> (line 203), so
  the answer is one of these or a response, which holds the \<open>text\<close> of each content item.
\<close>

record mcp_response =
  r_content :: "string list"
  r_meta :: "jsval option"
  r_isError :: "bool option"

datatype answer = Missing nullish | Response mcp_response

type_synonym graph_client = "string \<Rightarrow> options \<Rightarrow> thrown + answer"

datatype content_item = TextContent (item_text: string)

record call_tool_result =
  content :: "content_item list"
  meta :: "jsval option"
  isError :: "bool option"

text \<open>
  Of what the handler logs, the embedding keeps the inspection of the response (lines 203
  to 229); the other log lines only print the variables. The inspection only writes to the
  log. It reads the first content item; what it logs before something throws inside its
  \<open>try\<close> stays logged, and its \<open>catch\<close> then logs the preview as non-JSON. Reading a
  property of \<open>null\<close> throws. The sizes it prints are left out of the entries.
\<close>

datatype log_entry =
    LogResponseSize
  | LogItems nat
  | LogFirstItemBody
  | LogNextLink
  | LogPreview
  | LogPreviewNonJSON

definition get_prop :: "jsval \<Rightarrow> string \<Rightarrow> thrown + jsval option" where
  "get_prop v k =
     (case v of
        JNull \<Rightarrow> Inl (cannot_read Null k)
      | JObj ms \<Rightarrow> Inr (map_of ms k)
      | _ \<Rightarrow> Inr None)"

definition inspect_json :: "jsval \<Rightarrow> log_entry list" where
  "inspect_json jsonResponse =
     (case get_prop jsonResponse ''value'' of
        Inl e \<Rightarrow> [LogPreviewNonJSON]
      | Inr val \<Rightarrow>
          (case (case val of
                   Some (JArr xs) \<Rightarrow>
                     (case xs of
                        [] \<Rightarrow> Inr [LogItems 0]
                      | x # _ \<Rightarrow>
                          (case get_prop x ''body'' of
                             Inl e \<Rightarrow> Inl [LogItems (length xs)]
                           | Inr (Some bd) \<Rightarrow>
                               Inr (if truthy bd then [LogItems (length xs), LogFirstItemBody]
                                    else [LogItems (length xs)])
                           | Inr None \<Rightarrow> Inr [LogItems (length xs)]))
                 | _ \<Rightarrow> Inr []) of
             Inl logged \<Rightarrow> logged @ [LogPreviewNonJSON]
           | Inr logged \<Rightarrow>
               logged
               @ (case get_prop jsonResponse ''@odata.nextLink'' of
                    Inr (Some l) \<Rightarrow> if truthy l then [LogNextLink] else []
                  | _ \<Rightarrow> [])
               @ [LogPreview]))"

definition inspect_response :: "mcp_response \<Rightarrow> log_entry list" where
  "inspect_response response =
     (case r_content response of
        [] \<Rightarrow> []
      | responseText # _ \<Rightarrow>
          LogResponseSize #
          (case JSON_parse responseText of
             None \<Rightarrow> [LogPreviewNonJSON]
           | Some jsonResponse \<Rightarrow> inspect_json jsonResponse))"

definition result_of :: "mcp_response \<Rightarrow> call_tool_result" where
  "result_of response =
     \<lparr>content = map TextContent (r_content response),
      meta = r_meta response,
      isError = r_isError response\<rparr>"

text \<open>
  The body of the \<open>try\<close>: the request is built and sent, and the answer is inspected and
  mapped. On an answer that is \<open>null\<close> or \<open>undefined\<close> the inspection is passed over and
  \<open>response.content.map\<close> (line 232) throws a \<open>TypeError\<close>. The result comes with what the
  inspection logged.
\<close>

definition handler_try ::
  "endpoint \<Rightarrow> graph_client \<Rightarrow> arguments \<Rightarrow> thrown + (log_entry list \<times> call_tool_result)" where
  "handler_try tool graphRequest params =
     (case request tool params of
        Inl err \<Rightarrow> Inl err
      | Inr (pth, opts) \<Rightarrow>
          (case graphRequest pth opts of
             Inl err \<Rightarrow> Inl err
           | Inr (Missing x) \<Rightarrow> Inl (cannot_read x ''content'')
           | Inr (Response response) \<Rightarrow> Inr (inspect_response response, result_of response)))"

text \<open>
  The \<open>catch\<close> (lines 248 to 261). \<open>`${(error as Error).message}`\<close> is the string of the
  message read from the value caught; reading it is what throws on \<open>null\<close> and
  \<open>undefined\<close>, first on line 249.
\<close>

definition message_text :: "jsval option \<Rightarrow> string" where
  "message_text m = (case m of None \<Rightarrow> ''undefined'' | Some v \<Rightarrow> to_string v)"

definition error_message :: "thrown \<Rightarrow> thrown + string" where
  "error_message err =
     (case err of
        Nullish x \<Rightarrow> Inl (cannot_read x ''message'')
      | Thrown m \<Rightarrow> Inr (message_text m))"

definition error_result :: "endpoint \<Rightarrow> string \<Rightarrow> call_tool_result" where
  "error_result tool msg =
     \<lparr>content =
        [TextContent
           (JSON_stringify
              (JObj [(''error'', JStr (''Error in tool '' @ toolAlias tool @ '': '' @ msg))]))],
      meta = None,
      isError = Some True\<rparr>"

text \<open>
  The handler: \<open>Inr\<close> is the result it returns, \<open>Inl\<close> what it throws to the host that
  called it (its promise is rejected).
\<close>

definition handler :: "endpoint \<Rightarrow> graph_client \<Rightarrow> arguments \<Rightarrow> thrown + call_tool_result" where
  "handler tool graphRequest params =
     (case handler_try tool graphRequest params of
        Inl err \<Rightarrow>
          (case error_message err of
             Inl err' \<Rightarrow> Inl err'
           | Inr msg \<Rightarrow> Inr (error_result tool msg))
      | Inr res \<Rightarrow> Inr (snd res))"

section \<open>Registration\<close>

text \<open>
  \<open>registerGraphTools\<close> registers one operation for each catalog entry it does not skip,
  then three fixed operations. A registered operation is kept with its name, its
  description, the shape of its parameter schema, its read-only hint (the fixed
  operations give none) and where its handler comes from. \<open>server.tool\<close> belongs to the
  host's library; the names registered are taken to be distinct, as it asks.
\<close>

datatype schema = ZAny | ZString | ZDeclared | ZUnion schema schema

datatype tool_origin =
    FromEndpoint endpoint
  | DebugExcelAccess
  | UploadFileToOnedrive
  | CreateEmptyExcelFile

record registered_tool =
  reg_name :: string
  reg_description :: string
  paramSchema :: "(string \<times> schema) list"
  readOnlyHint :: "bool option"
  origin :: tool_origin

text \<open>
  Lines 72 to 81: a body parameter with a schema accepts a string or that schema; any
  other parameter its own schema, or anything when it has none.
\<close>

definition param_schema :: "parameter \<Rightarrow> schema" where
  "param_schema param =
     (if ptype param = Body \<and> has_schema param then ZUnion ZString ZDeclared
      else if has_schema param then ZDeclared
      else ZAny)"

definition register_endpoint :: "endpoint \<Rightarrow> registered_tool" where
  "register_endpoint tool =
     \<lparr>reg_name = toolAlias tool,
      reg_description = (case description tool of Some d \<Rightarrow> d | None \<Rightarrow> []),
      paramSchema = foldl (\<lambda>acc param. put (name param) (param_schema param) acc) [] (parameters tool),
      readOnlyHint = Some (toUpperCase (httpMethod tool) = ''GET''),
      origin = FromEndpoint tool\<rparr>"

text \<open>The loop of lines 66 to 264; \<open>continue\<close> skips the entry.\<close>

fun register_endpoints :: "endpoint list \<Rightarrow> bool \<Rightarrow> registered_tool list" where
  "register_endpoints [] readOnly = []"
| "register_endpoints (tool # tools) readOnly =
     (if readOnly \<and> toUpperCase (httpMethod tool) \<noteq> ''GET'' then register_endpoints tools readOnly
      else register_endpoint tool # register_endpoints tools readOnly)"

definition fixed_tools :: "registered_tool list" where
  "fixed_tools =
     [\<lparr>reg_name = ''debug-excel-access'',
       reg_description = ''Debug Excel file access and permissions'',
       paramSchema = [(''filePath'', ZString)],
       readOnlyHint = None, origin = DebugExcelAccess\<rparr>,
      \<lparr>reg_name = ''upload-file-to-onedrive'',
       reg_description = ''Upload a new file to OneDrive'',
       paramSchema =
         [(''fileName'', ZString), (''content'', ZString), (''folderPath'', ZString),
          (''contentType'', ZString)],
       readOnlyHint = None, origin = UploadFileToOnedrive\<rparr>,
      \<lparr>reg_name = ''create-empty-excel-file'',
       reg_description = ''Create an empty Excel file in OneDrive'',
       paramSchema = [(''fileName'', ZString), (''folderPath'', ZString)],
       readOnlyHint = None, origin = CreateEmptyExcelFile\<rparr>]"

definition registerGraphTools :: "endpoint list \<Rightarrow> bool \<Rightarrow> registered_tool list" where
  "registerGraphTools endpoints readOnly = register_endpoints endpoints readOnly @ fixed_tools"

text \<open>The request the upload operation sends (lines 350 to 361).\<close>

definition upload_request :: "string \<Rightarrow> string \<Rightarrow> string \<Rightarrow> string \<Rightarrow> string \<times> options" where
  "upload_request fileName file_content folderPath contentType =
     ((if folderPath = ''/'' then ''/me/drive/root:/'' @ fileName @ '':/content''
       else ''/me/drive/root:'' @ folderPath @ ''/'' @ fileName @ '':/content''),
      \<lparr>o_method = ''PUT'', o_headers = [(''Content-Type'', contentType)],
       o_body = Some file_content, o_excelFile = None, o_rawResponse = False\<rparr>)"

section \<open>Notions the claims are stated with\<close>

text \<open>
  An argument name is known to a descriptor when one of its parameters has that name or
  when it is the legacy name \<open>body\<close>.
\<close>

definition known_argument :: "endpoint \<Rightarrow> string \<Rightarrow> bool" where
  "known_argument tool n = (n \<in> name ` set (parameters tool) \<or> n = ''body'')"

text \<open>
  The location the descriptor gives an argument name: that of the first parameter with
  this name, as \<open>parameterDefinitions.find\<close> picks it.
\<close>

definition located :: "parameter list \<Rightarrow> string \<Rightarrow> param_type \<Rightarrow> bool" where
  "located defs n t =
     (case find (\<lambda>p. name p = n) defs of Some d \<Rightarrow> ptype d = t | None \<Rightarrow> False)"

text \<open>
  An argument writes the body when it is located in the body, or when no parameter has
  its name and it is called \<open>body\<close>.
\<close>

definition writes_body :: "parameter list \<Rightarrow> string \<Rightarrow> bool" where
  "writes_body defs n =
     (case find (\<lambda>p. name p = n) defs of Some d \<Rightarrow> ptype d = Body | None \<Rightarrow> n = ''body'')"


text \<open>The catalog entry a registered operation was made from, if any.\<close>

definition catalog_entry :: "registered_tool \<Rightarrow> endpoint option" where
  "catalog_entry t = (case origin t of FromEndpoint e \<Rightarrow> Some e | _ \<Rightarrow> None)"

definition is_get :: "endpoint \<Rightarrow> bool" where
  "is_get tool = (toUpperCase (httpMethod tool) = ''GET'')"

section \<open>Descriptors and transports for the examples\<close>

definition getItem :: endpoint where
  "getItem =
     \<lparr>toolAlias = ''getItem'', httpMethod = ''GET'', path = ''/items/{id}'', description = None,
      parameters = [\<lparr>name = ''id'', ptype = Path, has_schema = False\<rparr>], errors = []\<rparr>"

definition listItems :: endpoint where
  "listItems =
     \<lparr>toolAlias = ''listItems'', httpMethod = ''GET'', path = ''/items'', description = None,
      parameters = [\<lparr>name = ''filter'', ptype = Query, has_schema = False\<rparr>], errors = []\<rparr>"

definition createItem :: endpoint where
  "createItem =
     \<lparr>toolAlias = ''createItem'', httpMethod = ''POST'', path = ''/items'', description = None,
      parameters = [\<lparr>name = ''payload'', ptype = Body, has_schema = True\<rparr>], errors = []\<rparr>"

text \<open>
  Transports: one that throws an \<open>Error\<close>, one that throws the given value, one that
  answers with the given texts, and one that answers \<open>undefined\<close>.
\<close>

definition failing :: "string \<Rightarrow> graph_client" where
  "failing msg pth opts = Inl (Error msg)"

definition throwing :: "thrown \<Rightarrow> graph_client" where
  "throwing err pth opts = Inl err"

definition answering :: "string list \<Rightarrow> graph_client" where
  "answering texts pth opts =
     Inr (Response \<lparr>r_content = texts, r_meta = None, r_isError = None\<rparr>)"

definition silent :: graph_client where
  "silent pth opts = Inr (Missing Undefined)"

text \<open>The unpaired surrogate U+D800, as \<open>JSON.parse\<close> reads it from \<open>"\ud800"\<close>.\<close>

definition lone_surrogate :: string where
  "lone_surrogate = [CHR 0xED, CHR 0xA0, CHR 0x80]"

definition searchItems :: endpoint where
  "searchItems =
     \<lparr>toolAlias = ''searchItems'', httpMethod = ''get'', path = ''/items?view=all'',
      description = Some ''Search the items'',
      parameters =
        [\<lparr>name = ''Filter'', ptype = Query, has_schema = False\<rparr>,
         \<lparr>name = ''pageSize'', ptype = Query, has_schema = False\<rparr>,
         \<lparr>name = ''Count'', ptype = Header, has_schema = False\<rparr>,
         \<lparr>name = ''ConsistencyLevel'', ptype = Header, has_schema = False\<rparr>],
      errors = []\<rparr>"

definition copyItem :: endpoint where
  "copyItem =
     \<lparr>toolAlias = ''copyItem'', httpMethod = ''GET'', path = ''/items/{id}/copies/{id}'',
      description = None,
      parameters = [\<lparr>name = ''id'', ptype = Path, has_schema = False\<rparr>], errors = []\<rparr>"


definition queryItems :: endpoint where
  "queryItems =
     \<lparr>toolAlias = ''queryItems'', httpMethod = ''GET'', path = ''/items/query'',
      description = None,
      parameters = [\<lparr>name = ''payload'', ptype = Body, has_schema = True\<rparr>], errors = []\<rparr>"

definition linkItem :: endpoint where
  "linkItem =
     \<lparr>toolAlias = ''linkItem'', httpMethod = ''GET'', path = ''/items/:identifier/links/:id'',
      description = None,
      parameters =
        [\<lparr>name = ''identifier'', ptype = Path, has_schema = False\<rparr>,
         \<lparr>name = ''id'', ptype = Path, has_schema = False\<rparr>],
      errors = []\<rparr>"

section \<open>Facts about the JavaScript functions\<close>

subsection \<open>The JavaScript functions on some inputs\<close>

lemma num_to_string_examples:
  "num_to_string 15 (- 1) = ''1.5''"
  "num_to_string (- 250) 1 = ''-2500''"
  "num_to_string 1 21 = ''1e+21''"
  "num_to_string 5 (- 7) = ''5e-7''"
  "num_to_string 12 (- 7) = ''0.0000012''"
  "num_to_string 123456789012345 (- 3) = ''123456789012.345''"
  "num_to_string 0 5 = ''0''"
  by code_simp+

lemma to_string_examples:
  "to_string (JArr [JNum 1 0, JNull, JArr [JStr ''x'', JBool True]]) = ''1,,x,true''"
  "to_string (JObj [(''a'', JNum 1 0)]) = ''[object Object]''"
  by code_simp+

lemma encodeURIComponent_examples:
  "encodeURIComponent ''a eq 1'' = ''a%20eq%201''"
  "encodeURIComponent ''$filter'' = ''%24filter''"
  "encodeURIComponent ''4/2:x'' = ''4%2F2%3Ax''"
  "encodeURIComponent [CHR 0xC3, CHR 0xA9] = ''%C3%A9''"
  by code_simp+

lemma JSON_parse_examples:
  \<open>JSON_parse '''' = None\<close>
  \<open>JSON_parse ''not json'' = None\<close>
  \<open>JSON_parse ''[1,]'' = None\<close>
  \<open>JSON_parse ''{"a":1,}'' = None\<close>
  \<open>JSON_parse ''01'' = None\<close>
  \<open>JSON_parse ''[1] x'' = None\<close>
  \<open>JSON_parse '' false '' = Some (JBool False)\<close>
  \<open>JSON_parse ([CHR 0x22, CHR 0x5C] @ ''ud83d'' @ [CHR 0x5C] @ ''ude00'' @ [CHR 0x22]) =
     Some (JStr [CHR 0xF0, CHR 0x9F, CHR 0x98, CHR 0x80])\<close>
  \<open>JSON_parse ''{"4294967294":1,"4294967295":2,"a":3,"7":4}'' =
     Some (JObj [(''7'', JNum 4 0), (''4294967294'', JNum 1 0), (''4294967295'', JNum 2 0),
                 (''a'', JNum 3 0)])\<close>
  \<open>JSON_parse ([CHR 0x22, CHR 0x5C] @ ''u00e9'' @ [CHR 0x5C] @ ''n'' @ [CHR 0x22]) =
     Some (JStr [CHR 0xC3, CHR 0xA9, CHR 0x0A])\<close>
  \<open>JSON_parse ''{ "b" : [1, -2.50e3, true, null, {}, []], "10" : "x", "2" : 3, "b" : "last" }'' =
     Some (JObj [(''2'', JNum 3 0), (''10'', JStr ''x''), (''b'', JStr ''last'')])\<close>
  by code_simp+

lemma JSON_stringify_examples:
  \<open>JSON_stringify (JObj [(''a'', JArr [JNum 1 0, JNum 25 (- 1), JNull]), (''b'', JStr ''x'')]) =
     ''{"a":[1,2.5,null],"b":"x"}''\<close>
  \<open>JSON_stringify (JStr [CHR ''a'', CHR 0x0A, CHR 0x01, CHR 0x22]) =
     [CHR 0x22, CHR ''a'', CHR 0x5C, CHR ''n'', CHR 0x5C] @ ''u0001'' @ [CHR 0x5C, CHR 0x22, CHR 0x22]\<close>
  by code_simp+

lemma match_excel_examples:
  "match_excel ''/me/drive/root:/a.xlsx:/workbook/worksheets'' = Some ''/a.xlsx''"
  "match_excel ''/me/drive/root::/workbook'' = None"
  "match_excel ''/me/drive/items/1/workbook'' = None"
  by code_simp+

lemma malformed_examples:
  "JSON_parse ([CHR 0x22, CHR 0x5C] @ ''ud800'' @ [CHR 0x22]) = Some (JStr lone_surrogate)"
  "malformed lone_surrogate"
  "malformed (''a'' @ [CHR 0xED, CHR 0xBF, CHR 0xBF] @ ''b'')"
  "\<not> malformed [CHR 0xED, CHR 0x9F, CHR 0xBF]"
  "\<not> malformed [CHR 0xF0, CHR 0x9F, CHR 0x98, CHR 0x80]"
  "\<not> malformed ''/test.xlsx''"
  by code_simp+

subsection \<open>\<open>JSON.parse\<close> reads back what \<open>JSON.stringify\<close> writes for a string\<close>

lemma hex_value_hex_lower: "d < 16 \<Longrightarrow> hex_value (hex_lower d) = Some (int d)"
proof -
  assume "d < 16"
  then have "d \<in> {0, 1, 2, 3, 4, 5, 6, 7, 8, 9, 10, 11, 12, 13, 14, 15}"
    by simp arith
  then show ?thesis
    by (elim insertE emptyE) (simp_all add: hex_value_def hex_lower_def is_digit_def code_def)
qed

lemma hex4_control: "n < 32 \<Longrightarrow>
  hex4 [CHR ''0'', CHR ''0'', hex_lower (n div 16), hex_lower (n mod 16)] = Some (int n)"
proof -
  assume n: "n < 32"
  have 0: "hex_value (CHR ''0'') = Some 0"
    by (simp add: hex_value_def is_digit_def code_def)
  from n have "n div 16 < 16" by simp
  then have 1: "hex_value (hex_lower (n div 16)) = Some (int (n div 16))"
    by (rule hex_value_hex_lower)
  have 2: "hex_value (hex_lower (n mod 16)) = Some (int (n mod 16))"
    by (rule hex_value_hex_lower) simp
  have "int (n div 16) * 16 + int (n mod 16) = int n"
    by (simp add: zdiv_int zmod_int)
  then show ?thesis by (simp add: hex4_def 0 1 2)
qed

lemma lex_string_quote_char: "lex_string acc (quote_char c @ r) = lex_string (acc @ [c]) r"
proof -
  consider (short) "c \<in> {CHR 0x22, CHR 0x5C, CHR 0x08, CHR 0x09, CHR 0x0A, CHR 0x0C, CHR 0x0D}"
    | (control) "c \<notin> {CHR 0x22, CHR 0x5C, CHR 0x08, CHR 0x09, CHR 0x0A, CHR 0x0C, CHR 0x0D}" "code c < 32"
    | (plain) "c \<notin> {CHR 0x22, CHR 0x5C, CHR 0x08, CHR 0x09, CHR 0x0A, CHR 0x0C, CHR 0x0D}" "\<not> code c < 32"
    by blast
  then show ?thesis
  proof cases
    case short
    then show ?thesis
      by (elim insertE emptyE) (simp_all add: quote_char_def unescape_def)
  next
    case control
    have enc: "utf8_encode (int (code c)) = [c]"
      using control(2) by (simp add: utf8_encode_def code_def)
    from control show ?thesis
      by (simp add: quote_char_def hex4_control enc)
  next
    case plain
    then show ?thesis
      by (simp add: quote_char_def)
  qed
qed

lemma lex_string_quoted:
  "lex_string acc (concat (map quote_char s) @ CHR 0x22 # r) = Some (acc @ s, r)"
proof (induction s arbitrary: acc)
  case Nil
  show ?case by simp
next
  case (Cons c s)
  have "lex_string acc (concat (map quote_char (c # s)) @ CHR 0x22 # r) =
        lex_string acc (quote_char c @ (concat (map quote_char s) @ CHR 0x22 # r))"
    by simp
  also have "\<dots> = lex_string (acc @ [c]) (concat (map quote_char s) @ CHR 0x22 # r)"
    by (rule lex_string_quote_char)
  also have "\<dots> = Some ((acc @ [c]) @ s, r)"
    by (rule Cons.IH)
  finally show ?case by simp
qed

lemma lex_quote: "lex (quote s @ r) = map_option ((#) (TString s)) (lex r)"
  by (simp add: quote_def is_ws_def lex_string_quoted)

lemma parse_error_object:
  "JSON_parse (JSON_stringify (JObj [(k, JStr s)])) = Some (JObj [(k, JStr s)])"
proof -
  have "lex (JSON_stringify (JObj [(k, JStr s)])) =
        Some [TLBrace, TString k, TColon, TString s, TRBrace]"
    using lex_quote [of k "'':'' @ quote s @ ''}''"] lex_quote [of s "''}''"]
    by (simp add: is_ws_def)
  then show ?thesis
    by (simp add: JSON_parse_def put_def)
qed

lemma js_includes_append: "js_includes (a @ p @ b) p"
proof (induction a)
  case Nil
  have "startsWith (p @ b) p" by (simp add: startsWith_def)
  then show ?case by (cases "p @ b") auto
next
  case (Cons c a)
  then show ?case by simp
qed

subsection \<open>The binding loop\<close>

lemma find_name_None: "n \<notin> name ` set defs \<Longrightarrow> find (\<lambda>p. name p = n) defs = None"
  by (auto simp: find_None_iff)

lemma bind_param_unknown:
  "\<not> known_argument tool n \<Longrightarrow> bind_param (parameters tool) b (n, v) = b"
  by (simp add: known_argument_def bind_param_def find_name_None)

lemma foldl_filter_skip:
  "(\<And>b x. \<not> P x \<Longrightarrow> f b x = b) \<Longrightarrow> foldl f b (filter P xs) = foldl f b xs"
  by (induction xs arbitrary: b) simp_all

lemma bind_all_known:
  "bind_all tool (filter (\<lambda>a. known_argument tool (fst a)) params) = bind_all tool params"
proof -
  have skip: "bind_param (parameters tool) b a = b" if "\<not> known_argument tool (fst a)" for b a
    using that bind_param_unknown [of tool "fst a" b "snd a"] by simp
  show ?thesis
    unfolding bind_all_def by (rule foldl_filter_skip) (rule skip)
qed

lemma synthesize_bind_all:
  "bind_all tool ps = bind_all tool qs \<Longrightarrow> synthesize tool ps = synthesize tool qs"
  by (simp add: synthesize_def)

lemma body_bind_param_writer:
  "writes_body defs n \<Longrightarrow> body (bind_param defs b (n, v)) = body_value v"
  by (auto simp: writes_body_def bind_param_def split: option.splits param_type.splits)

lemma body_bind_param_other:
  "\<not> writes_body defs (fst a) \<Longrightarrow> body (bind_param defs b a) = body b"
  by (auto simp: writes_body_def bind_param_def Let_def split: option.splits param_type.splits)

lemma body_foldl_others:
  "\<forall>a \<in> set qs. \<not> writes_body defs (fst a) \<Longrightarrow>
   body (foldl (bind_param defs) b qs) = body b"
  by (induction qs arbitrary: b) (simp_all add: body_bind_param_other)

lemma body_last_writer:
  assumes "writes_body (parameters tool) n"
    and "\<forall>a \<in> set qs. \<not> writes_body (parameters tool) (fst a)"
  shows "body (bind_all tool (ps @ (n, v) # qs)) = body_value v"
  using assms by (simp add: bind_all_def body_foldl_others body_bind_param_writer)

subsection \<open>Search, replacement and escaping\<close>

lemma js_includes_iff: "js_includes s p \<longleftrightarrow> (\<exists>a b. s = a @ p @ b)"
proof (induction s)
  case Nil
  show ?case by auto
next
  case (Cons c s)
  have here: "startsWith (c # s) p \<longleftrightarrow> (\<exists>b. c # s = p @ b)"
    unfolding startsWith_def
    by (metis append_eq_conv_conj append_take_drop_id)
  show ?case
  proof
    assume "js_includes (c # s) p"
    then consider "startsWith (c # s) p" | "js_includes s p" by auto
    then show "\<exists>a b. c # s = a @ p @ b"
    proof cases
      case 1
      with here obtain b where "c # s = [] @ p @ b" by auto
      then show ?thesis by blast
    next
      case 2
      with Cons.IH obtain a b where "s = a @ p @ b" by blast
      then have "c # s = (c # a) @ p @ b" by simp
      then show ?thesis by blast
    qed
  next
    assume "\<exists>a b. c # s = a @ p @ b"
    then obtain a b where ab: "c # s = a @ p @ b" by blast
    show "js_includes (c # s) p"
    proof (cases a)
      case Nil
      with ab have "\<exists>b. c # s = p @ b" by auto
      with here have "startsWith (c # s) p" by blast
      then show ?thesis by simp
    next
      case (Cons x a')
      with ab have "s = a' @ p @ b" by simp
      with Cons.IH show ?thesis by auto
    qed
  qed
qed

lemma js_includes_char: "js_includes s [c] \<longleftrightarrow> c \<in> set s"
  by (induction s) (auto simp: startsWith_def)

lemma js_includes_first_char: "js_includes s (c # p) \<Longrightarrow> c \<in> set s"
  by (auto simp: js_includes_iff)

lemma replace_absent: "\<not> js_includes s pat \<Longrightarrow> replace s pat rep = s"
  by (induction s) auto

lemma replace_at:
  "c \<notin> set pre \<Longrightarrow> replace (pre @ (c # p) @ post) (c # p) rep = pre @ rep @ post"
  by (induction pre) (auto simp: startsWith_def)

lemma not_includes_after:
  assumes "c \<notin> set pre" and "\<not> js_includes post (c # p)"
  shows "\<not> js_includes (pre @ post) (c # p)"
proof
  assume "js_includes (pre @ post) (c # p)"
  then obtain a b where ab: "pre @ post = a @ (c # p) @ b"
    by (auto simp: js_includes_iff)
  then consider us where "pre = a @ us" "us @ post = (c # p) @ b"
    | us where "pre @ us = a" "post = us @ (c # p) @ b"
    by (auto simp: append_eq_append_conv2)
  then show False
  proof cases
    case 1
    show False
    proof (cases us)
      case Nil
      with 1 have "post = [] @ (c # p) @ b" by simp
      with assms(2) show False unfolding js_includes_iff by blast
    next
      case (Cons x us')
      with 1 have "c \<in> set pre" by auto
      with assms(1) show False by simp
    qed
  next
    case 2
    with assms(2) show False unfolding js_includes_iff by blast
  qed
qed

lemma hex_upper_digit: "hex_upper n \<in> set ''0123456789ABCDEF''"
  unfolding hex_upper_def by (rule nth_mem) simp

lemma encodeURIComponent_chars:
  assumes "c \<in> set (encodeURIComponent s)"
  shows "uri_unreserved c \<or> c = CHR ''%'' \<or> c \<in> set ''0123456789ABCDEF''"
proof -
  from assms obtain x where "c \<in> set (encode_byte x)"
    by (auto simp: encodeURIComponent_def)
  then show ?thesis
    using hex_upper_digit [of "code x div 16"] hex_upper_digit [of "code x mod 16"]
    by (auto simp: encode_byte_def split: if_splits)
qed

lemma encodeURIComponent_safe:
  "set (encodeURIComponent s) \<inter> set ''$&=?#/:{} '' = {}"
proof -
  have "c \<notin> set ''$&=?#/:{} ''" if "c \<in> set (encodeURIComponent s)" for c
    using encodeURIComponent_chars [OF that]
    by (auto simp: uri_unreserved_def is_digit_def is_upper_def is_lower_def code_def)
  then show ?thesis by blast
qed

lemma encodeURIComponent_no_dollar: "CHR ''$'' \<notin> set (encodeURIComponent s)"
  using encodeURIComponent_safe [of s] by auto

subsection \<open>Property names\<close>









subsection \<open>Registration\<close>

lemma register_endpoints_read_only:
  "register_endpoints endpoints True = map register_endpoint (filter is_get endpoints)"
  by (induction endpoints) (simp_all add: is_get_def)

lemma register_endpoints_read_write:
  "register_endpoints endpoints False = map register_endpoint endpoints"
  by (induction endpoints) simp_all

lemma catalog_entry_register_endpoint:
  "List.map_filter catalog_entry (map register_endpoint es) = es"
  by (induction es) (simp_all add: List.map_filter_def catalog_entry_def register_endpoint_def)

lemma catalog_entry_fixed_tools: "List.map_filter catalog_entry fixed_tools = []"
  by (simp add: List.map_filter_def catalog_entry_def fixed_tools_def)

lemma catalog_entries_read_only:
  "List.map_filter catalog_entry (registerGraphTools endpoints True) = filter is_get endpoints"
  using catalog_entry_register_endpoint [of "filter is_get endpoints"] catalog_entry_fixed_tools
  by (simp add: registerGraphTools_def register_endpoints_read_only List.map_filter_def)

lemma fixed_tools_always_registered:
  "registerGraphTools endpoints readOnly = register_endpoints endpoints readOnly @ fixed_tools"
  "map reg_name fixed_tools =
     [''debug-excel-access'', ''upload-file-to-onedrive'', ''create-empty-excel-file'']"
  by (simp_all add: registerGraphTools_def fixed_tools_def)

lemma upload_request_put: "o_method (snd (upload_request fileName c folderPath contentType)) = ''PUT''"
  by (simp add: upload_request_def)

subsection \<open>The handler\<close>

text \<open>
  Where the \<open>try\<close> throws, and what: the \<open>URIError\<close> of binding or of the query string,
  what the transport throws, or the \<open>TypeError\<close> of mapping an answer that is \<open>null\<close> or
  \<open>undefined\<close>. The handler itself throws exactly when the value caught is \<open>null\<close> or
  \<open>undefined\<close>, which only the transport throws.
\<close>

lemma handler_try_throws:
  "handler_try tool graphRequest params = Inl err \<longleftrightarrow>
     (binding_throws tool params \<or> synthesis_throws tool params) \<and> err = uri_malformed
     \<or> \<not> binding_throws tool params \<and> \<not> synthesis_throws tool params
       \<and> (graphRequest (fst (synthesize tool params)) (snd (synthesize tool params)) = Inl err
          \<or> (\<exists>x. graphRequest (fst (synthesize tool params)) (snd (synthesize tool params)) =
                    Inr (Missing x)
                  \<and> err = cannot_read x ''content''))"
  by (auto simp: handler_try_def request_def split: sum.splits prod.splits answer.splits)

lemma handler_throws:
  "handler tool graphRequest params = Inl err \<longleftrightarrow>
     (\<exists>x. handler_try tool graphRequest params = Inl (Nullish x) \<and> err = cannot_read x ''message'')"
  by (auto simp: handler_def error_message_def split: sum.splits thrown.splits)

lemma nullish_from_transport:
  "handler_try tool graphRequest params = Inl (Nullish x) \<longleftrightarrow>
     \<not> binding_throws tool params \<and> \<not> synthesis_throws tool params
     \<and> graphRequest (fst (synthesize tool params)) (snd (synthesize tool params)) = Inl (Nullish x)"
  by (auto simp: handler_try_throws uri_malformed_def cannot_read_def Error_def)

lemma handler_answered:
  assumes "request tool params = Inr (pth, opts)"
    and "graphRequest pth opts = Inr (Response response)"
  shows "handler_try tool graphRequest params =
           Inr (inspect_response response, result_of response)"
    and "handler tool graphRequest params = Inr (result_of response)"
  using assms by (simp_all add: handler_def handler_try_def)

text \<open>
  An argument named by no parameter and not called \<open>body\<close> changes neither what is thrown
  nor what is returned.
\<close>

lemma binding_throws_known:
  "binding_throws tool (filter (\<lambda>a. known_argument tool (fst a)) params) =
     binding_throws tool params"
proof -
  let ?throws = "\<lambda>arg. case find (\<lambda>p. name p = fst arg) (parameters tool) of
                        Some paramDef \<Rightarrow> ptype paramDef = Path \<and> malformed (to_string (snd arg))
                      | None \<Rightarrow> False"
  have known: "known_argument tool (fst arg)" if "?throws arg" for arg
    using that find_name_None [of "fst arg" "parameters tool"]
    by (auto simp: known_argument_def split: option.splits)
  have "(\<exists>arg \<in> set (filter (\<lambda>a. known_argument tool (fst a)) params). ?throws arg) =
        (\<exists>arg \<in> set params. ?throws arg)"
    unfolding set_filter using known by blast
  then show ?thesis
    unfolding binding_throws_def .
qed

lemma request_known:
  "request tool (filter (\<lambda>a. known_argument tool (fst a)) params) = request tool params"
  using synthesize_bind_all [OF bind_all_known [of tool params]]
  by (simp add: request_def binding_throws_known synthesis_throws_def bind_all_known)

lemma handler_known:
  "handler tool graphRequest (filter (\<lambda>a. known_argument tool (fst a)) params) =
     handler tool graphRequest params"
  by (simp add: handler_def handler_try_def request_known)

subsection \<open>Binding into the path\<close>

text \<open>
  The step an argument located in the path makes, and two shapes of path on which it
  puts the escaped string in the place of the placeholder.
\<close>

lemma bind_param_path:
  assumes "located ds n Path"
  shows "bpath (bind_param ds b (n, v)) =
           replace (replace (bpath b) (''{'' @ n @ ''}'') (encodeURIComponent (to_string v)))
             ('':'' @ n) (encodeURIComponent (to_string v))
       \<and> (bpath b = pre @ (''{'' @ n @ ''}'') @ post \<and> CHR ''{'' \<notin> set pre
            \<and> \<not> js_includes post (''{'' @ n @ ''}'') \<and> CHR '':'' \<notin> set (pre @ post)
          \<longrightarrow> bpath (bind_param ds b (n, v)) = pre @ encodeURIComponent (to_string v) @ post
              \<and> \<not> js_includes (bpath (bind_param ds b (n, v))) (''{'' @ n @ ''}'')
              \<and> \<not> js_includes (bpath (bind_param ds b (n, v))) ('':'' @ n))
       \<and> (bpath b = pre @ ('':'' @ n) @ post \<and> CHR '':'' \<notin> set pre
            \<and> \<not> js_includes post ('':'' @ n) \<and> CHR ''{'' \<notin> set (bpath b)
          \<longrightarrow> bpath (bind_param ds b (n, v)) = pre @ encodeURIComponent (to_string v) @ post
              \<and> \<not> js_includes (bpath (bind_param ds b (n, v))) (''{'' @ n @ ''}'')
              \<and> \<not> js_includes (bpath (bind_param ds b (n, v))) ('':'' @ n))"
proof -
  define e where "e = encodeURIComponent (to_string v)"
  have brace: "CHR ''{'' \<notin> set e" and colon: "CHR '':'' \<notin> set e"
    using encodeURIComponent_safe [of "to_string v"] by (auto simp: e_def)
  have step: "bpath (bind_param ds b (n, v)) =
      replace (replace (bpath b) (''{'' @ n @ ''}'') e) ('':'' @ n) e"
    using assms
    by (auto simp: bind_param_def located_def e_def split: option.splits)
  have curly: "bpath (bind_param ds b (n, v)) = pre @ e @ post
      \<and> \<not> js_includes (bpath (bind_param ds b (n, v))) (''{'' @ n @ ''}'')
      \<and> \<not> js_includes (bpath (bind_param ds b (n, v))) ('':'' @ n)"
    if shape: "bpath b = pre @ (''{'' @ n @ ''}'') @ post" and pre: "CHR ''{'' \<notin> set pre"
      and post: "\<not> js_includes post (''{'' @ n @ ''}'')" and nc: "CHR '':'' \<notin> set (pre @ post)"
  proof -
    have first: "replace (bpath b) (''{'' @ n @ ''}'') e = pre @ e @ post"
      unfolding shape using replace_at [OF pre, of "n @ ''}''" post e] by simp
    from nc colon have "CHR '':'' \<notin> set (pre @ e @ post)" by simp
    then have no_colon: "\<not> js_includes (pre @ e @ post) ('':'' @ n)"
      using js_includes_first_char [of "pre @ e @ post" "CHR '':''" n] by auto
    then have second: "replace (pre @ e @ post) ('':'' @ n) e = pre @ e @ post"
      by (rule replace_absent)
    from pre brace have "CHR ''{'' \<notin> set (pre @ e)" by simp
    then have "\<not> js_includes ((pre @ e) @ post) (CHR ''{'' # (n @ ''}''))"
      using post by (intro not_includes_after) simp_all
    then have no_curly: "\<not> js_includes (pre @ e @ post) (''{'' @ n @ ''}'')" by simp
    from step first second no_colon no_curly show ?thesis by simp
  qed
  have colons: "bpath (bind_param ds b (n, v)) = pre @ e @ post
      \<and> \<not> js_includes (bpath (bind_param ds b (n, v))) (''{'' @ n @ ''}'')
      \<and> \<not> js_includes (bpath (bind_param ds b (n, v))) ('':'' @ n)"
    if shape: "bpath b = pre @ ('':'' @ n) @ post" and pre: "CHR '':'' \<notin> set pre"
      and post: "\<not> js_includes post ('':'' @ n)" and nb: "CHR ''{'' \<notin> set (bpath b)"
  proof -
    from nb have "\<not> js_includes (bpath b) (''{'' @ n @ ''}'')"
      using js_includes_first_char [of "bpath b" "CHR ''{''" "n @ ''}''"] by auto
    then have first: "replace (bpath b) (''{'' @ n @ ''}'') e = pre @ ('':'' @ n) @ post"
      unfolding shape [symmetric] by (rule replace_absent)
    have second: "replace (pre @ ('':'' @ n) @ post) ('':'' @ n) e = pre @ e @ post"
      using replace_at [OF pre, of n post e] by simp
    from nb brace have "CHR ''{'' \<notin> set (pre @ e @ post)" unfolding shape by simp
    then have no_curly: "\<not> js_includes (pre @ e @ post) (''{'' @ n @ ''}'')"
      using js_includes_first_char [of "pre @ e @ post" "CHR ''{''" "n @ ''}''"] by auto
    from pre colon have "CHR '':'' \<notin> set (pre @ e)" by simp
    then have "\<not> js_includes ((pre @ e) @ post) (CHR '':'' # n)"
      using post by (intro not_includes_after) simp_all
    then have no_colon: "\<not> js_includes (pre @ e @ post) ('':'' @ n)" by simp
    from step first second no_colon no_curly show ?thesis by simp
  qed
  from step curly colons show ?thesis
    unfolding e_def by blast
qed


text \<open>
  Paths of three shapes, each holding its placeholders once: braces, colons, and a
  brace between colons.
\<close>

lemma bind_path_examples:
  "bpath (foldl (bind_param [\<lparr>name = ''uid'', ptype = Path, has_schema = False\<rparr>,
                             \<lparr>name = ''mid'', ptype = Path, has_schema = False\<rparr>])
            \<lparr>bpath = ''/users/{uid}/messages/{mid}'', queryParams = [], headers = [], body = JNull\<rparr>
            [(''mid'', JStr ''m 1''), (''uid'', JStr ''u/1'')]) =
     ''/users/u%2F1/messages/m%201''"
  "bpath (foldl (bind_param [\<lparr>name = ''messageId'', ptype = Path, has_schema = False\<rparr>,
                             \<lparr>name = ''attachmentId'', ptype = Path, has_schema = False\<rparr>])
            \<lparr>bpath = ''/me/messages/:messageId/attachments/:attachmentId'', queryParams = [],
             headers = [], body = JNull\<rparr>
            [(''attachmentId'', JNum 7 0)]) =
     ''/me/messages/:messageId/attachments/7''"
  "bpath (foldl (bind_param [\<lparr>name = ''filePath'', ptype = Path, has_schema = False\<rparr>])
            \<lparr>bpath = ''/me/drive/root:{filePath}:/workbook/worksheets'', queryParams = [],
             headers = [], body = JNull\<rparr>
            [(''filePath'', JStr ''/test.xlsx'')]) =
     ''/me/drive/root:%2Ftest.xlsx:/workbook/worksheets''"
  by code_simp+
section \<open>The claims\<close>

text \<open>
  C1, as the claim states it, fails where the value thrown is \<open>null\<close> or \<open>undefined\<close>: the
  \<open>catch\<close> reads \<open>message\<close> of the value it caught, that reading throws a \<open>TypeError\<close>,
  and the handler throws it to the host. Here the transport throws \<open>null\<close>, then
  \<open>undefined\<close>.
\<close>

theorem thrown_null_escapes:
  "handler_try getItem (throwing (Nullish Null)) [(''id'', JStr ''42'')] = Inl (Nullish Null)
   \<and> handler getItem (throwing (Nullish Null)) [(''id'', JStr ''42'')] =
       Inl (Error (''Cannot read properties of null (reading '' @ [CHR 0x27] @ ''message''
                   @ [CHR 0x27] @ '')''))
   \<and> handler_try getItem (throwing (Nullish Undefined)) [(''id'', JStr ''42'')] =
       Inl (Nullish Undefined)
   \<and> handler getItem (throwing (Nullish Undefined)) [(''id'', JStr ''42'')] =
       Inl (Error (''Cannot read properties of undefined (reading '' @ [CHR 0x27] @ ''message''
                   @ [CHR 0x27] @ '')''))"
  by code_simp

text \<open>
  C1, amended. When a step inside the handler's \<open>try\<close> (binding, building the request,
  the transport, mapping the answer) throws a value other than \<open>null\<close> and \<open>undefined\<close>,
  the handler returns: the result has \<open>isError\<close> true and exactly one text item; that
  text is read by \<open>JSON.parse\<close> as an object with the single field \<open>error\<close>, whose string
  contains the operation's name; nothing is thrown to the host.
\<close>

theorem handler_error_envelope:
  assumes "handler_try tool graphRequest params = Inl (Thrown m)"
  shows "handler tool graphRequest params =
           Inr \<lparr>content =
                  [TextContent
                     (JSON_stringify
                        (JObj [(''error'',
                                JStr (''Error in tool '' @ toolAlias tool @ '': ''
                                      @ message_text m))]))],
                meta = None, isError = Some True\<rparr>
         \<and> JSON_parse
             (JSON_stringify
                (JObj [(''error'',
                        JStr (''Error in tool '' @ toolAlias tool @ '': '' @ message_text m))])) =
           Some (JObj [(''error'',
                        JStr (''Error in tool '' @ toolAlias tool @ '': '' @ message_text m))])
         \<and> js_includes (''Error in tool '' @ toolAlias tool @ '': '' @ message_text m)
             (toolAlias tool)"
proof (intro conjI)
  show "handler tool graphRequest params =
          Inr \<lparr>content =
                 [TextContent
                    (JSON_stringify
                       (JObj [(''error'',
                               JStr (''Error in tool '' @ toolAlias tool @ '': ''
                                     @ message_text m))]))],
               meta = None, isError = Some True\<rparr>"
    using assms by (simp add: handler_def error_message_def error_result_def)
  show "JSON_parse
          (JSON_stringify
             (JObj [(''error'',
                     JStr (''Error in tool '' @ toolAlias tool @ '': '' @ message_text m))])) =
        Some (JObj [(''error'',
                     JStr (''Error in tool '' @ toolAlias tool @ '': '' @ message_text m))])"
    by (rule parse_error_object)
  show "js_includes (''Error in tool '' @ toolAlias tool @ '': '' @ message_text m) (toolAlias tool)"
    by (rule js_includes_append)
qed

text \<open>
  A throw of each step: binding an unpaired surrogate into the path, building the query
  string from one, a transport that throws an \<open>Error\<close>, one that throws a string (whose
  \<open>message\<close> is \<open>undefined\<close>), and a transport that answers \<open>undefined\<close>.
\<close>

theorem handler_error_envelope_witness:
  "handler_try getItem (answering [''ok'']) [(''id'', JStr lone_surrogate)] =
     Inl (Thrown (Some (JStr ''URI malformed'')))
   \<and> handler getItem (answering [''ok'']) [(''id'', JStr lone_surrogate)] =
       Inr \<lparr>content =
              [TextContent
                 ([CHR ''{'', CHR 0x22] @ ''error'' @ [CHR 0x22, CHR '':'', CHR 0x22]
                  @ ''Error in tool getItem: URI malformed'' @ [CHR 0x22, CHR ''}''])],
            meta = None, isError = Some True\<rparr>
   \<and> handler_try listItems (answering [''ok'']) [(''filter'', JStr lone_surrogate)] =
       Inl (Thrown (Some (JStr ''URI malformed'')))
   \<and> handler listItems (answering [''ok'']) [(''filter'', JStr lone_surrogate)] =
       Inr \<lparr>content =
              [TextContent
                 ([CHR ''{'', CHR 0x22] @ ''error'' @ [CHR 0x22, CHR '':'', CHR 0x22]
                  @ ''Error in tool listItems: URI malformed'' @ [CHR 0x22, CHR ''}''])],
            meta = None, isError = Some True\<rparr>
   \<and> handler_try getItem (failing ''boom'') [(''id'', JStr ''42'')] =
       Inl (Thrown (Some (JStr ''boom'')))
   \<and> handler getItem (failing ''boom'') [(''id'', JStr ''42'')] =
       Inr \<lparr>content =
              [TextContent
                 ([CHR ''{'', CHR 0x22] @ ''error'' @ [CHR 0x22, CHR '':'', CHR 0x22]
                  @ ''Error in tool getItem: boom'' @ [CHR 0x22, CHR ''}''])],
            meta = None, isError = Some True\<rparr>
   \<and> JSON_parse
         ([CHR ''{'', CHR 0x22] @ ''error'' @ [CHR 0x22, CHR '':'', CHR 0x22]
          @ ''Error in tool getItem: boom'' @ [CHR 0x22, CHR ''}'']) =
       Some (JObj [(''error'', JStr ''Error in tool getItem: boom'')])
   \<and> js_includes ''Error in tool getItem: boom'' ''getItem''
   \<and> handler_try getItem (throwing (Thrown None)) [(''id'', JStr ''42'')] = Inl (Thrown None)
   \<and> handler getItem (throwing (Thrown None)) [(''id'', JStr ''42'')] =
       Inr \<lparr>content =
              [TextContent
                 ([CHR ''{'', CHR 0x22] @ ''error'' @ [CHR 0x22, CHR '':'', CHR 0x22]
                  @ ''Error in tool getItem: undefined'' @ [CHR 0x22, CHR ''}''])],
            meta = None, isError = Some True\<rparr>
   \<and> handler_try getItem silent [(''id'', JStr ''42'')] =
       Inl (Thrown (Some (JStr (''Cannot read properties of undefined (reading ''
                                @ [CHR 0x27] @ ''content'' @ [CHR 0x27] @ '')''))))
   \<and> handler getItem silent [(''id'', JStr ''42'')] =
       Inr \<lparr>content =
              [TextContent
                 ([CHR ''{'', CHR 0x22] @ ''error'' @ [CHR 0x22, CHR '':'', CHR 0x22]
                  @ ''Error in tool getItem: Cannot read properties of undefined (reading ''
                  @ [CHR 0x27] @ ''content'' @ [CHR 0x27] @ '')'' @ [CHR 0x22, CHR ''}''])],
            meta = None, isError = Some True\<rparr>"
proof -
  have binding: "handler_try getItem (answering [''ok'']) [(''id'', JStr lone_surrogate)] =
      Inl (Thrown (Some (JStr ''URI malformed'')))"
    by code_simp
  have query: "handler_try listItems (answering [''ok'']) [(''filter'', JStr lone_surrogate)] =
      Inl (Thrown (Some (JStr ''URI malformed'')))"
    by code_simp
  have transport: "handler_try getItem (failing ''boom'') [(''id'', JStr ''42'')] =
      Inl (Thrown (Some (JStr ''boom'')))"
    by code_simp
  have bare: "handler_try getItem (throwing (Thrown None)) [(''id'', JStr ''42'')] =
      Inl (Thrown None)"
    by code_simp
  have mapping: "handler_try getItem silent [(''id'', JStr ''42'')] =
      Inl (Thrown (Some (JStr (''Cannot read properties of undefined (reading ''
                               @ [CHR 0x27] @ ''content'' @ [CHR 0x27] @ '')''))))"
    by code_simp
  have texts:
    "JSON_stringify
       (JObj [(''error'',
               JStr (''Error in tool '' @ toolAlias getItem @ '': ''
                     @ message_text (Some (JStr ''URI malformed''))))]) =
     [CHR ''{'', CHR 0x22] @ ''error'' @ [CHR 0x22, CHR '':'', CHR 0x22]
     @ ''Error in tool getItem: URI malformed'' @ [CHR 0x22, CHR ''}'']"
    "JSON_stringify
       (JObj [(''error'',
               JStr (''Error in tool '' @ toolAlias listItems @ '': ''
                     @ message_text (Some (JStr ''URI malformed''))))]) =
     [CHR ''{'', CHR 0x22] @ ''error'' @ [CHR 0x22, CHR '':'', CHR 0x22]
     @ ''Error in tool listItems: URI malformed'' @ [CHR 0x22, CHR ''}'']"
    "JSON_stringify
       (JObj [(''error'',
               JStr (''Error in tool '' @ toolAlias getItem @ '': ''
                     @ message_text (Some (JStr ''boom''))))]) =
     [CHR ''{'', CHR 0x22] @ ''error'' @ [CHR 0x22, CHR '':'', CHR 0x22]
     @ ''Error in tool getItem: boom'' @ [CHR 0x22, CHR ''}'']"
    "JSON_stringify
       (JObj [(''error'',
               JStr (''Error in tool '' @ toolAlias getItem @ '': '' @ message_text None))]) =
     [CHR ''{'', CHR 0x22] @ ''error'' @ [CHR 0x22, CHR '':'', CHR 0x22]
     @ ''Error in tool getItem: undefined'' @ [CHR 0x22, CHR ''}'']"
    "JSON_stringify
       (JObj [(''error'',
               JStr (''Error in tool '' @ toolAlias getItem @ '': ''
                     @ message_text
                         (Some (JStr (''Cannot read properties of undefined (reading ''
                                      @ [CHR 0x27] @ ''content'' @ [CHR 0x27] @ '')'')))))]) =
     [CHR ''{'', CHR 0x22] @ ''error'' @ [CHR 0x22, CHR '':'', CHR 0x22]
     @ ''Error in tool getItem: Cannot read properties of undefined (reading ''
     @ [CHR 0x27] @ ''content'' @ [CHR 0x27] @ '')'' @ [CHR 0x22, CHR ''}'']"
    by code_simp+
  have called: "toolAlias getItem = ''getItem''"
    by code_simp
  have msg: "''Error in tool '' @ ''getItem'' @ '': '' @ message_text (Some (JStr ''boom'')) =
      ''Error in tool getItem: boom''"
    by code_simp
  note bound = handler_error_envelope [OF binding, unfolded texts]
  note built = handler_error_envelope [OF query, unfolded texts]
  note sent = handler_error_envelope [OF transport, unfolded texts, unfolded called, unfolded msg]
  note other = handler_error_envelope [OF bare, unfolded texts]
  note mapped = handler_error_envelope [OF mapping, unfolded texts]
  from binding query transport bare mapping bound built sent other mapped show ?thesis
    by blast
qed

text \<open>
  C2, as the claim states it, fails in its example: the key is escaped like the value, so
  the \<open>$\<close> of \<open>$filter\<close> is written \<open>%24\<close> and the text \<open>$filter=a%20eq%201\<close> is not in the
  path requested.
\<close>

theorem filter_key_is_escaped:
  "fst (synthesize listItems [(''filter'', JStr ''a eq 1'')]) = ''/items?%24filter=a%20eq%201''
   \<and> \<not> js_includes (fst (synthesize listItems [(''filter'', JStr ''a eq 1'')]))
         ''$filter=a%20eq%201''"
  by code_simp

text \<open>
  C2, amended. When there are query parameters, the path requested is the bound path,
  then \<open>?\<close> (or \<open>&\<close> if the bound path holds a \<open>?\<close> already), then the pairs joined by
  \<open>&\<close>, each pair the escaped key, \<open>=\<close> and the escaped value; no \<open>$\<close>, \<open>&\<close>, \<open>=\<close> or \<open>?\<close>
  is left in an escaped key or value. For one argument located in the query, the pair is
  made of its stored key and its string: for \<open>filter\<close> it is \<open>%24filter=a%20eq%201\<close>.
\<close>

theorem query_string_appended:
  "fst (synthesize tool params) =
     (if queryParams (bind_all tool params) = [] then bpath (bind_all tool params)
      else bpath (bind_all tool params)
           @ (if CHR ''?'' \<in> set (bpath (bind_all tool params)) then ''&'' else ''?'')
           @ join ''&''
               (map (\<lambda>kv. encodeURIComponent (fst kv) @ ''='' @ encodeURIComponent (snd kv))
                  (queryParams (bind_all tool params))))
   \<and> (\<forall>kv \<in> set (queryParams (bind_all tool params)).
        set (encodeURIComponent (fst kv)) \<inter> set ''$&=?'' = {}
        \<and> set (encodeURIComponent (snd kv)) \<inter> set ''$&=?'' = {})
   \<and> (located (parameters tool) n Query \<longrightarrow>
        fst (synthesize tool [(n, v)]) =
          path tool @ (if CHR ''?'' \<in> set (path tool) then ''&'' else ''?'')
          @ encodeURIComponent (fixedParamName n) @ ''='' @ encodeURIComponent (to_string v))"
proof -
  have appended: "fst (synthesize tool params) =
     (if queryParams (bind_all tool params) = [] then bpath (bind_all tool params)
      else bpath (bind_all tool params)
           @ (if CHR ''?'' \<in> set (bpath (bind_all tool params)) then ''&'' else ''?'')
           @ join ''&''
               (map (\<lambda>kv. encodeURIComponent (fst kv) @ ''='' @ encodeURIComponent (snd kv))
                  (queryParams (bind_all tool params))))"
    by (simp add: synthesize_def Let_def with_query_def js_includes_char)
  have safe: "set (encodeURIComponent s) \<inter> set ''$&=?'' = {}" for s
    using encodeURIComponent_safe [of s] by auto
  have single: "put k x [] = [(k, x)]" for k :: string and x :: string
    by (simp add: put_def)
  have one: "fst (synthesize tool [(n, v)]) =
      path tool @ (if CHR ''?'' \<in> set (path tool) then ''&'' else ''?'')
      @ encodeURIComponent (fixedParamName n) @ ''='' @ encodeURIComponent (to_string v)"
    if query: "located (parameters tool) n Query"
  proof -
    have bound: "bind_all tool [(n, v)] =
        \<lparr>bpath = path tool, queryParams = [(fixedParamName n, to_string v)], headers = [],
         body = JNull\<rparr>"
      using query
      by (auto simp: bind_all_def bind_param_def located_def single split: option.splits)
    show ?thesis
      by (simp add: synthesize_def Let_def with_query_def js_includes_char bound)
  qed
  from appended safe one show ?thesis
    by blast
qed

theorem query_string_appended_witness:
  "located (parameters listItems) ''filter'' Query
   \<and> fst (synthesize listItems [(''filter'', JStr ''a eq 1'')]) =
       ''/items'' @ ''?'' @ ''%24filter'' @ ''='' @ ''a%20eq%201''
   \<and> located (parameters searchItems) ''pageSize'' Query
   \<and> fst (synthesize searchItems [(''pageSize'', JNum 5 0)]) =
       ''/items?view=all'' @ ''&'' @ ''pageSize'' @ ''='' @ ''5''"
proof -
  have q1: "located (parameters listItems) ''filter'' Query"
    by code_simp
  have q2: "located (parameters searchItems) ''pageSize'' Query"
    by code_simp
  have p1: "path listItems = ''/items''" "(if CHR ''?'' \<in> set ''/items'' then ''&'' else ''?'') = ''?''"
    "encodeURIComponent (fixedParamName ''filter'') = ''%24filter''"
    "encodeURIComponent (to_string (JStr ''a eq 1'')) = ''a%20eq%201''"
    by code_simp+
  have p2: "path searchItems = ''/items?view=all''"
    "(if CHR ''?'' \<in> set ''/items?view=all'' then ''&'' else ''?'') = ''&''"
    "encodeURIComponent (fixedParamName ''pageSize'') = ''pageSize''"
    "encodeURIComponent (to_string (JNum 5 0)) = ''5''"
    by code_simp+
  from query_string_appended [of listItems "[]" "''filter''" "JStr ''a eq 1''"] q1
  have r1: "fst (synthesize listItems [(''filter'', JStr ''a eq 1'')]) =
      path listItems @ (if CHR ''?'' \<in> set (path listItems) then ''&'' else ''?'')
      @ encodeURIComponent (fixedParamName ''filter'') @ ''=''
      @ encodeURIComponent (to_string (JStr ''a eq 1''))"
    by blast
  from query_string_appended [of searchItems "[]" "''pageSize''" "JNum 5 0"] q2
  have r2: "fst (synthesize searchItems [(''pageSize'', JNum 5 0)]) =
      path searchItems @ (if CHR ''?'' \<in> set (path searchItems) then ''&'' else ''?'')
      @ encodeURIComponent (fixedParamName ''pageSize'') @ ''=''
      @ encodeURIComponent (to_string (JNum 5 0))"
    by blast
  note r1' = r1 [unfolded p1]
  note r2' = r2 [unfolded p2]
  from q1 r1' q2 r2' show ?thesis
    by blast
qed

text \<open>
  C3. In read-only mode the operations registered from the catalog are those of its GET
  entries, for every catalog: the entries registered are the GET entries, as a set and
  in the catalog's order; every GET entry is registered; no registered operation comes
  from an entry that is not GET, and the names listed are those of the GET entries
  followed by the names of the three fixed operations, which come from no catalog entry
  and are registered after the loop.
\<close>

theorem read_only_registers_get_entries:
  "set (List.map_filter catalog_entry (registerGraphTools endpoints True)) =
     {e \<in> set endpoints. is_get e}
   \<and> List.map_filter catalog_entry (registerGraphTools endpoints True) = filter is_get endpoints
   \<and> (\<forall>e \<in> set endpoints. is_get e \<longrightarrow>
         register_endpoint e \<in> set (registerGraphTools endpoints True))
   \<and> (\<forall>t \<in> set (registerGraphTools endpoints True). \<forall>e.
         origin t = FromEndpoint e \<longrightarrow> e \<in> set endpoints \<and> is_get e)
   \<and> registerGraphTools endpoints True =
       map register_endpoint (filter is_get endpoints) @ fixed_tools
   \<and> map reg_name (registerGraphTools endpoints True) =
       map toolAlias (filter is_get endpoints)
       @ [''debug-excel-access'', ''upload-file-to-onedrive'', ''create-empty-excel-file'']"
proof -
  have all: "registerGraphTools endpoints True =
      map register_endpoint (filter is_get endpoints) @ fixed_tools"
    by (simp add: registerGraphTools_def register_endpoints_read_only)
  have entries: "List.map_filter catalog_entry (registerGraphTools endpoints True) =
      filter is_get endpoints"
    by (rule catalog_entries_read_only)
  have as_set: "set (List.map_filter catalog_entry (registerGraphTools endpoints True)) =
      {e \<in> set endpoints. is_get e}"
    unfolding entries by simp
  have every: "\<forall>e \<in> set endpoints. is_get e \<longrightarrow>
      register_endpoint e \<in> set (registerGraphTools endpoints True)"
    unfolding all by simp
  have fixed: "origin t \<noteq> FromEndpoint e" if "t \<in> set fixed_tools" for t e
    using that by (auto simp: fixed_tools_def)
  have none: "\<forall>t \<in> set (registerGraphTools endpoints True). \<forall>e.
      origin t = FromEndpoint e \<longrightarrow> e \<in> set endpoints \<and> is_get e"
    unfolding all using fixed by (auto simp: register_endpoint_def)
  have names: "map reg_name (map register_endpoint es) = map toolAlias es" for es
    by (induction es) (simp_all add: register_endpoint_def)
  have listed: "map reg_name (registerGraphTools endpoints True) =
      map toolAlias (filter is_get endpoints)
      @ [''debug-excel-access'', ''upload-file-to-onedrive'', ''create-empty-excel-file'']"
    unfolding all map_append names fixed_tools_always_registered(2) by (rule refl)
  from as_set entries every none all listed show ?thesis
    by blast
qed

theorem read_only_registers_get_entries_witness:
  "is_get getItem \<and> \<not> is_get createItem \<and> is_get searchItems
   \<and> set (List.map_filter catalog_entry
            (registerGraphTools [getItem, createItem, searchItems] True)) =
       {getItem, searchItems}
   \<and> List.map_filter catalog_entry (registerGraphTools [getItem, createItem, searchItems] True) =
       [getItem, searchItems]
   \<and> register_endpoint getItem \<in> set (registerGraphTools [getItem, createItem, searchItems] True)
   \<and> register_endpoint searchItems
       \<in> set (registerGraphTools [getItem, createItem, searchItems] True)
   \<and> register_endpoint createItem
       \<notin> set (registerGraphTools [getItem, createItem, searchItems] True)
   \<and> map reg_name (registerGraphTools [getItem, createItem, searchItems] True) =
       [''getItem'', ''searchItems'']
       @ [''debug-excel-access'', ''upload-file-to-onedrive'', ''create-empty-excel-file'']"
proof -
  have get: "is_get getItem" "\<not> is_get createItem" "is_get searchItems"
    by code_simp+
  then have gets: "filter is_get [getItem, createItem, searchItems] = [getItem, searchItems]"
    by simp
  have names: "map toolAlias [getItem, searchItems] = [''getItem'', ''searchItems'']"
    by code_simp
  have from_entry: "origin (register_endpoint createItem) = FromEndpoint createItem"
    by (simp add: register_endpoint_def)
  note registered =
    read_only_registers_get_entries [of "[getItem, createItem, searchItems]", unfolded gets names]
  from registered have entries:
    "List.map_filter catalog_entry (registerGraphTools [getItem, createItem, searchItems] True) =
       [getItem, searchItems]"
    by blast
  then have as_set:
    "set (List.map_filter catalog_entry
            (registerGraphTools [getItem, createItem, searchItems] True)) =
       {getItem, searchItems}"
    by simp
  from registered get have present:
    "register_endpoint getItem \<in> set (registerGraphTools [getItem, createItem, searchItems] True)"
    "register_endpoint searchItems
       \<in> set (registerGraphTools [getItem, createItem, searchItems] True)"
    by simp_all
  from registered from_entry get(2) have absent:
    "register_endpoint createItem
       \<notin> set (registerGraphTools [getItem, createItem, searchItems] True)"
    by blast
  from registered have listed:
    "map reg_name (registerGraphTools [getItem, createItem, searchItems] True) =
       [''getItem'', ''searchItems'']
       @ [''debug-excel-access'', ''upload-file-to-onedrive'', ''create-empty-excel-file'']"
    by blast
  from get as_set entries present absent listed show ?thesis
    by blast
qed

text \<open>
  C4, as the claim states it, fails in three ways. The string \<open>false\<close> parses as JSON,
  and the request carries no body: a value that is not truthy is not sent. A GET request
  carries no body whatever was bound. And of two arguments that write the body the
  earlier one does not decide the body of the request.
\<close>

theorem parsed_body_not_sent:
  \<open>located (parameters createItem) ''payload'' Body
   \<and> JSON_parse ''false'' = Some (JBool False)
   \<and> body (bind_all createItem [(''payload'', JStr ''false'')]) = JBool False
   \<and> o_body (snd (synthesize createItem [(''payload'', JStr ''false'')])) = None
   \<and> located (parameters queryItems) ''payload'' Body
   \<and> JSON_parse ''{"b":2}'' = Some (JObj [(''b'', JNum 2 0)])
   \<and> body (bind_all queryItems [(''payload'', JStr ''{"b":2}'')]) = JObj [(''b'', JNum 2 0)]
   \<and> o_body (snd (synthesize queryItems [(''payload'', JStr ''{"b":2}'')])) = None
   \<and> JSON_parse ''{"a":1}'' = Some (JObj [(''a'', JNum 1 0)])
   \<and> body (bind_all createItem [(''payload'', JStr ''{"a":1}''), (''body'', JStr ''{"b":2}'')]) =
       JObj [(''b'', JNum 2 0)]
   \<and> o_body (snd (synthesize createItem
                     [(''payload'', JStr ''{"a":1}''), (''body'', JStr ''{"b":2}'')])) =
       Some ''{"b":2}''\<close>
  by code_simp

text \<open>
  C4, amended. Take an argument located in the body whose value is a string, with no
  argument after it that writes the body. When the string parses as JSON, the body bound
  is the value parsed, and the request carries it exactly when the method is not GET and
  that value is truthy: as it is when it is a string, as its JSON text otherwise. When
  the string does not parse, the body bound is the string itself, and the request
  carries it unchanged exactly when the method is not GET and the string is not empty.
  Binding a body throws nothing: the step is a function of the string.
\<close>

theorem body_string_parsed_or_kept:
  assumes "located (parameters tool) n Body"
    and "\<forall>a \<in> set qs. \<not> writes_body (parameters tool) (fst a)"
  shows "body (bind_param (parameters tool) b (n, JStr s)) =
           (case JSON_parse s of Some v \<Rightarrow> v | None \<Rightarrow> JStr s)
       \<and> body (bind_all tool (ps @ (n, JStr s) # qs)) =
           (case JSON_parse s of Some v \<Rightarrow> v | None \<Rightarrow> JStr s)
       \<and> o_body (snd (synthesize tool (ps @ (n, JStr s) # qs))) =
           (case JSON_parse s of
              Some v \<Rightarrow>
                if toUpperCase (httpMethod tool) \<noteq> ''GET'' \<and> truthy v
                then Some (case v of JStr t \<Rightarrow> t | _ \<Rightarrow> JSON_stringify v)
                else None
            | None \<Rightarrow>
                if toUpperCase (httpMethod tool) \<noteq> ''GET'' \<and> s \<noteq> [] then Some s else None)"
proof -
  from assms(1) have writer: "writes_body (parameters tool) n"
    by (simp add: located_def writes_body_def split: option.splits)
  have step: "body (bind_param (parameters tool) b (n, JStr s)) =
        (case JSON_parse s of Some v \<Rightarrow> v | None \<Rightarrow> JStr s)"
    using body_bind_param_writer [OF writer, of b "JStr s"] by (simp add: body_value_def)
  have loop: "body (bind_all tool (ps @ (n, JStr s) # qs)) =
        (case JSON_parse s of Some v \<Rightarrow> v | None \<Rightarrow> JStr s)"
    using body_last_writer [OF writer assms(2), of ps "JStr s"] by (simp add: body_value_def)
  have sent: "o_body (snd (synthesize tool (ps @ (n, JStr s) # qs))) =
        (case JSON_parse s of
           Some v \<Rightarrow>
             if toUpperCase (httpMethod tool) \<noteq> ''GET'' \<and> truthy v
             then Some (case v of JStr t \<Rightarrow> t | _ \<Rightarrow> JSON_stringify v)
             else None
         | None \<Rightarrow>
             if toUpperCase (httpMethod tool) \<noteq> ''GET'' \<and> s \<noteq> [] then Some s else None)"
    using loop by (cases "JSON_parse s") (auto simp: synthesize_def Let_def split: jsval.splits)
  from step loop sent show ?thesis
    by blast
qed

theorem body_string_parsed_or_kept_witness:
  \<open>located (parameters createItem) ''payload'' Body
   \<and> \<not> writes_body (parameters createItem) ''id''
   \<and> JSON_parse ''{ "b" : [2, "x"] }'' = Some (JObj [(''b'', JArr [JNum 2 0, JStr ''x''])])
   \<and> body (bind_all createItem [(''payload'', JStr ''{ "b" : [2, "x"] }''), (''id'', JNum 7 0)]) =
       JObj [(''b'', JArr [JNum 2 0, JStr ''x''])]
   \<and> o_body (snd (synthesize createItem
                     [(''payload'', JStr ''{ "b" : [2, "x"] }''), (''id'', JNum 7 0)])) =
       Some ''{"b":[2,"x"]}''
   \<and> JSON_parse ''{b:2'' = None
   \<and> body (bind_all createItem [(''payload'', JStr ''{b:2''), (''id'', JNum 7 0)]) = JStr ''{b:2''
   \<and> o_body (snd (synthesize createItem [(''payload'', JStr ''{b:2''), (''id'', JNum 7 0)])) =
       Some ''{b:2''\<close>
proof -
  have spec: "located (parameters createItem) ''payload'' Body"
    by code_simp
  have other: "\<not> writes_body (parameters createItem) ''id''"
    by code_simp
  then have others:
    "\<forall>a \<in> set [(''id'', JNum 7 0)]. \<not> writes_body (parameters createItem) (fst a)"
    by simp
  have good: \<open>JSON_parse ''{ "b" : [2, "x"] }'' = Some (JObj [(''b'', JArr [JNum 2 0, JStr ''x''])])\<close>
    by code_simp
  have rendered: \<open>JSON_stringify (JObj [(''b'', JArr [JNum 2 0, JStr ''x''])]) = ''{"b":[2,"x"]}''\<close>
    by code_simp
  have bad: "JSON_parse ''{b:2'' = None"
    by code_simp
  have post: "toUpperCase (httpMethod createItem) \<noteq> ''GET''"
    by code_simp
  from body_string_parsed_or_kept [OF spec others, of _ \<open>''{ "b" : [2, "x"] }''\<close> "[]"]
       body_string_parsed_or_kept [OF spec others, of _ "''{b:2''" "[]"]
       spec other good bad post rendered
  show ?thesis
    by (simp del: JSON_stringify.simps)
qed



text \<open>
  C6. The handler replaces the placeholder with \<open>String.replace\<close> and a string pattern,
  which replaces the first match only and matches anywhere. So a placeholder that stands
  twice in the path stays unresolved the second time, and the \<open>:id\<close> of an argument
  \<open>id\<close> is taken out of an earlier \<open>:identifier\<close>, which leaves \<open>:id\<close> itself unresolved.
  The example of the claim is resolved as the claim says.
\<close>

theorem repeated_placeholder_stays:
  "located (parameters copyItem) ''id'' Path
   \<and> request copyItem [(''id'', JStr ''42'')] =
       Inr (''/items/42/copies/{id}'',
            \<lparr>o_method = ''GET'', o_headers = [], o_body = None, o_excelFile = None,
             o_rawResponse = False\<rparr>)
   \<and> js_includes (fst (synthesize copyItem [(''id'', JStr ''42'')])) ''{id}''
   \<and> located (parameters linkItem) ''id'' Path
   \<and> request linkItem [(''id'', JStr ''42'')] =
       Inr (''/items/42entifier/links/:id'',
            \<lparr>o_method = ''GET'', o_headers = [], o_body = None, o_excelFile = None,
             o_rawResponse = False\<rparr>)
   \<and> js_includes (fst (synthesize linkItem [(''id'', JStr ''42'')])) '':id''
   \<and> request getItem [(''id'', JStr ''42'')] =
       Inr (''/items/42'',
            \<lparr>o_method = ''GET'', o_headers = [], o_body = None, o_excelFile = None,
             o_rawResponse = False\<rparr>)"
  by code_simp

text \<open>
  C7, as the claim states it, fails: a body that is not \<open>null\<close> but falsy is not attached.
  An empty string is refused by \<open>JSON.parse\<close> and stays the body; the POST request then
  carries no body.
\<close>

theorem falsy_body_not_attached:
  "toUpperCase (httpMethod createItem) \<noteq> ''GET''
   \<and> body (bind_all createItem [(''payload'', JStr '''')]) = JStr ''''
   \<and> body (bind_all createItem [(''payload'', JStr '''')]) \<noteq> JNull
   \<and> o_body (snd (synthesize createItem [(''payload'', JStr '''')])) = None"
  by code_simp

text \<open>
  C7, amended. A body is attached exactly when the upper-cased method is not GET and the
  bound body is truthy, that is none of \<open>null\<close>, \<open>false\<close>, zero and the empty string;
  when attached, a string is sent as it is and any other value as \<open>JSON.stringify\<close>
  writes it.
\<close>

theorem body_attached_iff_truthy:
  "(o_body (snd (synthesize tool params)) \<noteq> None \<longleftrightarrow>
      toUpperCase (httpMethod tool) \<noteq> ''GET'' \<and> truthy (body (bind_all tool params)))
   \<and> (truthy (body (bind_all tool params)) \<longleftrightarrow>
        body (bind_all tool params) \<noteq> JNull \<and> body (bind_all tool params) \<noteq> JBool False
        \<and> body (bind_all tool params) \<noteq> JStr ''''
        \<and> (\<forall>e. body (bind_all tool params) \<noteq> JNum 0 e))
   \<and> (toUpperCase (httpMethod tool) \<noteq> ''GET'' \<and> truthy (body (bind_all tool params)) \<longrightarrow>
        o_body (snd (synthesize tool params)) =
          Some (case body (bind_all tool params) of
                  JStr s \<Rightarrow> s
                | v \<Rightarrow> JSON_stringify v))"
proof -
  have falsy: "truthy v \<longleftrightarrow> v \<noteq> JNull \<and> v \<noteq> JBool False \<and> v \<noteq> JStr '''' \<and> (\<forall>e. v \<noteq> JNum 0 e)"
    for v
    by (cases v) auto
  show ?thesis
    using falsy [of "body (bind_all tool params)"]
    by (simp add: synthesize_def Let_def)
qed

theorem body_attached_iff_truthy_witness:
  \<open>toUpperCase (httpMethod createItem) \<noteq> ''GET''
   \<and> truthy (body (bind_all createItem [(''payload'', JStr ''{"a":[1,2.5]}'')]))
   \<and> body (bind_all createItem [(''payload'', JStr ''{"a":[1,2.5]}'')]) =
       JObj [(''a'', JArr [JNum 1 0, JNum 25 (- 1)])]
   \<and> o_body (snd (synthesize createItem [(''payload'', JStr ''{"a":[1,2.5]}'')])) =
       Some ''{"a":[1,2.5]}''\<close>
proof -
  have post: "toUpperCase (httpMethod createItem) \<noteq> ''GET''"
    by code_simp
  have bound: \<open>body (bind_all createItem [(''payload'', JStr ''{"a":[1,2.5]}'')]) =
      JObj [(''a'', JArr [JNum 1 0, JNum 25 (- 1)])]\<close>
    by code_simp
  have sent: \<open>JSON_stringify (JObj [(''a'', JArr [JNum 1 0, JNum 25 (- 1)])]) = ''{"a":[1,2.5]}''\<close>
    by code_simp
  from body_attached_iff_truthy [of createItem "[(''payload'', JStr ''{\"a\":[1,2.5]}'')]"]
       post
  show ?thesis
    unfolding bound by (simp add: sent del: JSON_stringify.simps)
qed

text \<open>
  C8, as the claim states it, fails in its last part: when the transport answers with an
  empty content list the handler returns that empty list, without error.
\<close>

theorem success_content_may_be_empty:
  "handler_try getItem (answering []) [(''id'', JStr ''42'')] =
     Inr ([], \<lparr>content = [], meta = None, isError = None\<rparr>)
   \<and> handler getItem (answering []) [(''id'', JStr ''42'')] =
       Inr \<lparr>content = [], meta = None, isError = None\<rparr>"
  by code_simp

text \<open>
  C8, amended. When the request is built and the transport answers it with a response,
  the handler returns a result whose content is one text item for each item of the
  response, in the same order and with the same text; metadata and error flag are those
  of the response; this holds whatever the inspection logs; the content is empty exactly
  when the response's content is.
\<close>

theorem success_result_copies_response:
  assumes "request tool params = Inr (pth, opts)"
    and "graphRequest pth opts = Inr (Response response)"
  shows "handler tool graphRequest params =
           Inr \<lparr>content = map TextContent (r_content response), meta = r_meta response,
                isError = r_isError response\<rparr>
       \<and> handler_try tool graphRequest params =
           Inr (inspect_response response, projr (handler tool graphRequest params))
       \<and> length (content (projr (handler tool graphRequest params))) = length (r_content response)
       \<and> (\<forall>i < length (r_content response).
            item_text (content (projr (handler tool graphRequest params)) ! i) =
              r_content response ! i)
       \<and> (content (projr (handler tool graphRequest params)) = [] \<longleftrightarrow> r_content response = [])"
proof -
  have tried: "handler_try tool graphRequest params =
        Inr (inspect_response response, result_of response)"
    using assms by (rule handler_answered)
  have result: "handler tool graphRequest params = Inr (result_of response)"
    using assms by (rule handler_answered)
  show ?thesis
    unfolding result tried by (simp add: result_of_def)
qed

theorem success_result_copies_response_witness:
  \<open>request getItem [(''id'', JStr ''42'')] =
     Inr (''/items/42'',
          \<lparr>o_method = ''GET'', o_headers = [], o_body = None, o_excelFile = None,
           o_rawResponse = False\<rparr>)
   \<and> answering [''{"value":[]}'', ''second''] ''/items/42''
       \<lparr>o_method = ''GET'', o_headers = [], o_body = None, o_excelFile = None,
        o_rawResponse = False\<rparr> =
       Inr (Response \<lparr>r_content = [''{"value":[]}'', ''second''], r_meta = None, r_isError = None\<rparr>)
   \<and> handler getItem (answering [''{"value":[]}'', ''second'']) [(''id'', JStr ''42'')] =
       Inr \<lparr>content = [TextContent ''{"value":[]}'', TextContent ''second''], meta = None,
            isError = None\<rparr>
   \<and> handler_try getItem (answering [''{"value":[]}'', ''second'']) [(''id'', JStr ''42'')] =
       Inr ([LogResponseSize, LogItems 0, LogPreview],
            \<lparr>content = [TextContent ''{"value":[]}'', TextContent ''second''], meta = None,
             isError = None\<rparr>)\<close>
proof -
  have built: "request getItem [(''id'', JStr ''42'')] =
     Inr (''/items/42'',
          \<lparr>o_method = ''GET'', o_headers = [], o_body = None, o_excelFile = None,
           o_rawResponse = False\<rparr>)"
    by code_simp
  have answered: \<open>answering [''{"value":[]}'', ''second''] ''/items/42''
       \<lparr>o_method = ''GET'', o_headers = [], o_body = None, o_excelFile = None,
        o_rawResponse = False\<rparr> =
     Inr (Response \<lparr>r_content = [''{"value":[]}'', ''second''], r_meta = None, r_isError = None\<rparr>)\<close>
    by (simp add: answering_def)
  have logged: \<open>inspect_response
       \<lparr>r_content = [''{"value":[]}'', ''second''], r_meta = None, r_isError = None\<rparr> =
     [LogResponseSize, LogItems 0, LogPreview]\<close>
    by code_simp
  from success_result_copies_response
         [of getItem "[(''id'', JStr ''42'')]" "''/items/42''"
             "\<lparr>o_method = ''GET'', o_headers = [], o_body = None, o_excelFile = None,
               o_rawResponse = False\<rparr>"
             \<open>answering [''{"value":[]}'', ''second'']\<close>
             \<open>\<lparr>r_content = [''{"value":[]}'', ''second''], r_meta = None, r_isError = None\<rparr>\<close>,
          OF built answered]
       built answered
  show ?thesis
    by (simp add: logged)
qed

text \<open>
  C9. Two invocations whose arguments agree once every argument with an unknown name (no
  parameter of the descriptor has it, and it is not \<open>body\<close>) is left out give the same
  synthesized request: path with query string, method, headers, body and transport hints.
  So an invocation gives the request it gives without its unknown arguments. An
  argument called \<open>body\<close> that no parameter matches is bound as an argument located in the
  body is.
\<close>

theorem unknown_arguments_dropped:
  "(filter (\<lambda>a. known_argument tool (fst a)) params1 =
      filter (\<lambda>a. known_argument tool (fst a)) params2
    \<longrightarrow> synthesize tool params1 = synthesize tool params2)
   \<and> synthesize tool params1 =
       synthesize tool (filter (\<lambda>a. known_argument tool (fst a)) params1)
   \<and> (''body'' \<notin> name ` set (parameters tool)
      \<longrightarrow> bind_param (parameters tool) b (''body'', v) = b\<lparr>body := body_value v\<rparr>)
   \<and> (located (parameters tool) n Body
      \<longrightarrow> bind_param (parameters tool) b (n, v) = b\<lparr>body := body_value v\<rparr>)"
proof (intro conjI impI)
  assume "filter (\<lambda>a. known_argument tool (fst a)) params1 =
          filter (\<lambda>a. known_argument tool (fst a)) params2"
  then have "bind_all tool params1 = bind_all tool params2"
    using bind_all_known [of tool params1] bind_all_known [of tool params2] by simp
  then show "synthesize tool params1 = synthesize tool params2"
    by (rule synthesize_bind_all)
next
  show "synthesize tool params1 =
        synthesize tool (filter (\<lambda>a. known_argument tool (fst a)) params1)"
    by (rule synthesize_bind_all) (simp add: bind_all_known)
next
  assume "''body'' \<notin> name ` set (parameters tool)"
  then show "bind_param (parameters tool) b (''body'', v) = b\<lparr>body := body_value v\<rparr>"
    by (simp add: bind_param_def find_name_None)
next
  assume "located (parameters tool) n Body"
  then show "bind_param (parameters tool) b (n, v) = b\<lparr>body := body_value v\<rparr>"
    by (auto simp: located_def bind_param_def split: option.splits)
qed

theorem unknown_arguments_dropped_witness:
  "filter (\<lambda>a. known_argument createItem (fst a))
     [(''verbose'', JBool True), (''payload'', JStr ''x''), (''id'', JNum 7 0)] =
   filter (\<lambda>a. known_argument createItem (fst a)) [(''payload'', JStr ''x'')]
   \<and> synthesize createItem [(''verbose'', JBool True), (''payload'', JStr ''x''), (''id'', JNum 7 0)] =
     synthesize createItem [(''payload'', JStr ''x'')]
   \<and> ''body'' \<notin> name ` set (parameters createItem)
   \<and> bind_param (parameters createItem)
       \<lparr>bpath = ''/items'', queryParams = [], headers = [], body = JNull\<rparr> (''body'', JStr ''x'') =
     \<lparr>bpath = ''/items'', queryParams = [], headers = [], body = JStr ''x''\<rparr>
   \<and> located (parameters createItem) ''payload'' Body
   \<and> bind_param (parameters createItem)
       \<lparr>bpath = ''/items'', queryParams = [], headers = [], body = JNull\<rparr> (''payload'', JStr ''x'') =
     \<lparr>bpath = ''/items'', queryParams = [], headers = [], body = JStr ''x''\<rparr>"
proof -
  have same: "filter (\<lambda>a. known_argument createItem (fst a))
       [(''verbose'', JBool True), (''payload'', JStr ''x''), (''id'', JNum 7 0)] =
     filter (\<lambda>a. known_argument createItem (fst a)) [(''payload'', JStr ''x'')]"
    by code_simp
  have legacy: "''body'' \<notin> name ` set (parameters createItem)"
    by code_simp
  have spec: "located (parameters createItem) ''payload'' Body"
    by code_simp
  have kept: "body_value (JStr ''x'') = JStr ''x''"
    by code_simp
  from unknown_arguments_dropped
         [of createItem "[(''verbose'', JBool True), (''payload'', JStr ''x''), (''id'', JNum 7 0)]"
             "[(''payload'', JStr ''x'')]"
             "\<lparr>bpath = ''/items'', queryParams = [], headers = [], body = JNull\<rparr>"
             "JStr ''x''" "''payload''"]
       same legacy spec
  show ?thesis
    by (simp add: kept)
qed

text \<open>
  C10. The loop has one body variable and the request one optional body. Every argument
  located in the body and every unmatched argument called \<open>body\<close> writes that variable, so
  the last such argument in the order of the arguments decides alone what the body is:
  neither the arguments before it nor those after it change the body sent.
\<close>

theorem single_body_last_wins:
  assumes "writes_body (parameters tool) n"
    and "\<forall>a \<in> set qs. \<not> writes_body (parameters tool) (fst a)"
  shows "body (bind_all tool (ps @ (n, v) # qs)) = body_value v
       \<and> o_body (snd (synthesize tool (ps @ (n, v) # qs))) =
           (if toUpperCase (httpMethod tool) \<noteq> ''GET'' \<and> truthy (body_value v)
            then Some (case body_value v of JStr s \<Rightarrow> s | w \<Rightarrow> JSON_stringify w)
            else None)"
proof -
  have last: "body (bind_all tool (ps @ (n, v) # qs)) = body_value v"
    using assms by (rule body_last_writer)
  then show ?thesis
    by (simp add: synthesize_def Let_def)
qed

theorem single_body_last_wins_witness:
  \<open>writes_body (parameters createItem) ''payload''
   \<and> \<not> writes_body (parameters createItem) ''id''
   \<and> body (bind_all createItem
        [(''body'', JStr ''{"a":1}''), (''payload'', JStr ''{"b":2}''), (''id'', JNum 7 0)]) =
       JObj [(''b'', JNum 2 0)]
   \<and> o_body (snd (synthesize createItem
        [(''body'', JStr ''{"a":1}''), (''payload'', JStr ''{"b":2}''), (''id'', JNum 7 0)])) =
       Some ''{"b":2}''\<close>
proof -
  have writer: "writes_body (parameters createItem) ''payload''"
    by code_simp
  have other: "\<not> writes_body (parameters createItem) ''id''"
    by code_simp
  then have others:
    "\<forall>a \<in> set [(''id'', JNum 7 0)]. \<not> writes_body (parameters createItem) (fst a)"
    by simp
  have parsed: \<open>body_value (JStr ''{"b":2}'') = JObj [(''b'', JNum 2 0)]\<close>
    by code_simp
  have sent: \<open>JSON_stringify (JObj [(''b'', JNum 2 0)]) = ''{"b":2}''\<close>
    by code_simp
  have post: "toUpperCase (httpMethod createItem) \<noteq> ''GET''"
    by code_simp
  from single_body_last_wins
         [OF writer others, of "[(''body'', JStr ''{\"a\":1}'')]" "JStr ''{\"b\":2}''"]
       writer other
  show ?thesis
    by (simp add: parsed sent post del: JSON_stringify.simps)
qed

end
